theory Spec2Isabelle
  imports Main
begin

section \<open>Strings and arrays of the host language\<close>

text \<open>
  The handler of \<^verbatim>\<open>src/index.tsx\<close> works on JavaScript strings and arrays. A string is
  modelled as a \<^typ>\<open>string\<close> that holds the bytes of its UTF-8 encoding, a value that may be
  \<^verbatim>\<open>undefined\<close> or \<^verbatim>\<open>null\<close> as an option.
\<close>

text \<open>\<^verbatim>\<open>s.startsWith(p)\<close>, and \<^verbatim>\<open>s.includes(sub)\<close>: \<^verbatim>\<open>sub\<close> occurs in \<^verbatim>\<open>s\<close> as a contiguous run.\<close>

fun startsWith :: "string \<Rightarrow> string \<Rightarrow> bool" where
  "startsWith s [] = True"
| "startsWith [] (d # p) = False"
| "startsWith (c # s) (d # p) = (c = d \<and> startsWith s p)"

fun str_includes :: "string \<Rightarrow> string \<Rightarrow> bool" where
  "str_includes [] sub = (sub = [])"
| "str_includes (c # s) sub = (startsWith (c # s) sub \<or> str_includes s sub)"

text \<open>
  \<^verbatim>\<open>String.prototype.trim\<close> strips the white space and the line terminators of ECMAScript
  from both ends. These are the code points U+0009 to U+000D, U+0020, U+00A0, U+1680, U+2000
  to U+200A, U+2028, U+2029, U+202F, U+205F, U+3000 and U+FEFF, listed here by their UTF-8
  encodings. No encoding is the start of another one, and the bytes that end an encoded
  string are the encoding of its last code point, so the same list, read backwards, serves
  at the end of the string.
\<close>

definition white_space :: "string list" where
  "white_space =
     [[CHR 0x09], [CHR 0x0A], [CHR 0x0B], [CHR 0x0C], [CHR 0x0D], [CHR 0x20],
      [CHR 0xC2, CHR 0xA0],
      [CHR 0xE1, CHR 0x9A, CHR 0x80],
      [CHR 0xE2, CHR 0x80, CHR 0x80], [CHR 0xE2, CHR 0x80, CHR 0x81],
      [CHR 0xE2, CHR 0x80, CHR 0x82], [CHR 0xE2, CHR 0x80, CHR 0x83],
      [CHR 0xE2, CHR 0x80, CHR 0x84], [CHR 0xE2, CHR 0x80, CHR 0x85],
      [CHR 0xE2, CHR 0x80, CHR 0x86], [CHR 0xE2, CHR 0x80, CHR 0x87],
      [CHR 0xE2, CHR 0x80, CHR 0x88], [CHR 0xE2, CHR 0x80, CHR 0x89],
      [CHR 0xE2, CHR 0x80, CHR 0x8A],
      [CHR 0xE2, CHR 0x80, CHR 0xA8], [CHR 0xE2, CHR 0x80, CHR 0xA9],
      [CHR 0xE2, CHR 0x80, CHR 0xAF],
      [CHR 0xE2, CHR 0x81, CHR 0x9F],
      [CHR 0xE3, CHR 0x80, CHR 0x80],
      [CHR 0xEF, CHR 0xBB, CHR 0xBF]]"

text \<open>The length of the code at the head of a string, 0 when none of the codes is there.\<close>

definition ws_prefix :: "string list \<Rightarrow> string \<Rightarrow> nat" where
  "ws_prefix codes s = (case find (startsWith s) codes of None \<Rightarrow> 0 | Some w \<Rightarrow> length w)"

fun trimStart :: "string list \<Rightarrow> string \<Rightarrow> string" where
  "trimStart codes [] = []"
| "trimStart codes (c # s) =
     (if ws_prefix codes (c # s) = 0 then c # s
      else trimStart codes (drop (ws_prefix codes (c # s) - 1) s))"

definition trim :: "string \<Rightarrow> string" where
  "trim s = rev (trimStart (map rev white_space) (rev (trimStart white_space s)))"

text \<open>\<^verbatim>\<open>xs.join(sep)\<close> on an array of strings.\<close>

fun join :: "string \<Rightarrow> string list \<Rightarrow> string" where
  "join sep [] = []"
| "join sep [x] = x"
| "join sep (x # y # ys) = x @ sep @ join sep (y # ys)"

text \<open>
  A template literal renders \<^verbatim>\<open>undefined\<close> as the text \<^verbatim>\<open>undefined\<close>; reading an array
  past its end gives \<^verbatim>\<open>undefined\<close>.
\<close>

definition js_str :: "string option \<Rightarrow> string" where
  "js_str v = (case v of None \<Rightarrow> ''undefined'' | Some s \<Rightarrow> s)"

definition at_index :: "string option list \<Rightarrow> nat \<Rightarrow> string option" where
  "at_index xs k = (if k < length xs then xs ! k else None)"

text \<open>\<^verbatim>\<open>xs.filter((_, i) => i !== index)\<close>: the filter sees the position, not the value.\<close>

fun filter_index_from :: "nat \<Rightarrow> nat \<Rightarrow> 'a list \<Rightarrow> 'a list" where
  "filter_index_from i index [] = []"
| "filter_index_from i index (x # xs) =
     (if i \<noteq> index then x # filter_index_from (Suc i) index xs
      else filter_index_from (Suc i) index xs)"

definition filter_other :: "nat \<Rightarrow> 'a list \<Rightarrow> 'a list" where
  "filter_other index xs = filter_index_from 0 index xs"

section \<open>Data model\<close>

datatype role = User | Model

text \<open>
  A \<^verbatim>\<open>Part\<close> of the Gateway's client library: a text (whose \<^verbatim>\<open>text\<close> field the handler
  may fill with an undefined value) or inline data with its MIME type and base64 payload.
\<close>

datatype part = Text "string option" | InlineData string string

record content =
  c_role :: role
  c_parts :: "part list"

text \<open>
  A browser \<^verbatim>\<open>File\<close>: its name, its MIME type, and what \<^verbatim>\<open>FileReader.readAsDataURL\<close>
  yields for it, the base64 payload after the comma, or nothing when the reader fails.
\<close>

record js_file =
  file_name :: string
  file_type :: string
  file_payload :: "string option"

type_synonym grounding_chunk = "string \<times> string"

record message =
  role :: role
  parts :: "part list"
  msg_file :: "js_file option"
  memoryUpdated :: "bool option"
  attachmentName :: "string option"
  groundingChunks :: "grounding_chunk list option"

record chat_session =
  chat_id :: string
  title :: string
  messages :: "message list"

section \<open>The Gateway\<close>

datatype tool = GoogleSearch

datatype modality = IMAGE | TEXT

text \<open>
  The argument of \<^verbatim>\<open>ai.models.generateContent\<close>. A \<^verbatim>\<open>config\<close> without
  \<^verbatim>\<open>systemInstruction\<close> is \<open>None\<close>, one without \<^verbatim>\<open>tools\<close> or
  \<^verbatim>\<open>responseModalities\<close> requests none. The title call passes its prompt as a bare
  string, which is recorded as one user turn with that text.
\<close>

record request =
  req_model :: string
  req_contents :: "content list"
  req_systemInstruction :: "string option"
  req_tools :: "tool list"
  req_responseModalities :: "modality list"

text \<open>
  What the handler reads of a response: \<^verbatim>\<open>text\<close>,
  \<^verbatim>\<open>candidates?.[0]?.content?.parts\<close> and
  \<^verbatim>\<open>candidates?.[0]?.groundingMetadata?.groundingChunks\<close>, each possibly undefined.
\<close>

record response =
  res_text :: "string option"
  candidate_parts :: "part list option"
  candidate_groundingChunks :: "grounding_chunk list option"

text \<open>The places of the source that call the Gateway.\<close>

datatype site =
  TitleCall | BypassCall | MemoryCall | InitialCall nat | RefinementCall nat | SynthesizerCall

text \<open>
  The Gateway is outside the repository. It is a parameter: for the call of a site with a
  request it fixes how long the call takes and whether the promise is rejected, with an
  \<^verbatim>\<open>Error\<close> carrying a message, or fulfilled with a response. Time is counted in
  milliseconds from the submission; reading files and all local computation take none.
\<close>

type_synonym gateway = "site \<Rightarrow> request \<Rightarrow> nat \<times> (string + response)"

type_synonym issued = "nat \<times> site \<times> request"

text \<open>
  \<^verbatim>\<open>Promise.all\<close> over promises that settle at the given times: fulfilled with all
  values once the last one is, rejected with the reason of the earliest rejection as soon
  as it happens (the first in the array among those rejected at the same time).
\<close>

fun first_rejection :: "(nat \<times> (string + 'a)) list \<Rightarrow> (nat \<times> string) option" where
  "first_rejection [] = None"
| "first_rejection ((t, Inr v) # ps) = first_rejection ps"
| "first_rejection ((t, Inl e) # ps) =
     (case first_rejection ps of
        None \<Rightarrow> Some (t, e)
      | Some (t', e') \<Rightarrow> if t' < t then Some (t', e') else Some (t, e))"

fun fulfilled_values :: "(nat \<times> (string + 'a)) list \<Rightarrow> 'a list" where
  "fulfilled_values [] = []"
| "fulfilled_values ((t, Inr v) # ps) = v # fulfilled_values ps"
| "fulfilled_values ((t, Inl e) # ps) = fulfilled_values ps"

definition promise_all :: "(nat \<times> (string + 'a)) list \<Rightarrow> nat \<times> (string + 'a list)" where
  "promise_all ps =
     (case first_rejection ps of
        Some (t, e) \<Rightarrow> (t, Inl e)
      | None \<Rightarrow> (fold max (map fst ps) 0, Inr (fulfilled_values ps)))"

section \<open>Application state\<close>

text \<open>
  The state of the \<^verbatim>\<open>App\<close> component that \<^verbatim>\<open>handleSubmit\<close> reads or writes, as one
  render sees it. \<^verbatim>\<open>env_API_KEY\<close> is \<^verbatim>\<open>process.env.API_KEY\<close>.
\<close>

record app_state =
  chats :: "chat_session list"
  activeChatId :: "string option"
  memory :: "string list"
  model :: string
  apiKey :: string
  env_API_KEY :: "string option"
  userInput :: string
  attachment :: "js_file option"
  isGroundingEnabled :: bool
  isLoading :: bool
  loadingStatus :: string
  voiceError :: "string option"

text \<open>
  The updates of the shared state that a submission performs through \<^verbatim>\<open>setChats\<close> and
  \<^verbatim>\<open>setMemory\<close>, each recorded with the time at which it is performed.
\<close>

datatype update = AppendMessage message | AddMemory string | SetTitle string

record turn =
  t_calls :: "issued list"
  t_updates :: "(nat \<times> update) list"
  t_memorySettled :: "nat option"
  t_pipelineSettled :: "nat option"
  t_status :: "string option"

record outcome =
  final :: app_state
  calls :: "issued list"
  updates :: "(nat \<times> update) list"
  memorySettled :: "nat option"
  pipelineSettled :: "nat option"

section \<open>Constants of the source\<close>

definition INITIAL_SYSTEM_INSTRUCTION :: string where
  \<open>INITIAL_SYSTEM_INSTRUCTION = ''You are an expert-level AI assistant. Your task is to provide a comprehensive, accurate, and well-reasoned initial response to the user's query. Aim for clarity and depth. Note: Your response is an intermediate step for other AI agents and will not be shown to the user. Be concise and focus on core information without unnecessary verbosity.''\<close>

definition REFINEMENT_SYSTEM_INSTRUCTION :: string where
  \<open>REFINEMENT_SYSTEM_INSTRUCTION = ''You are a reflective AI agent. Your primary task is to find flaws. Critically analyze your previous response and the responses from other AI agents. Focus specifically on identifying factual inaccuracies, logical fallacies, omissions, or any other weaknesses. Your goal is to generate a new, revised response that corrects these specific errors and is free from the flaws you have identified. Note: This refined response is for a final synthesizer agent, not the user, so be direct and prioritize accuracy over conversational style.''\<close>

text \<open>The dash of the synthesizer instruction is U+2014, here as its three UTF-8 bytes.\<close>

definition SYNTHESIZER_SYSTEM_INSTRUCTION :: string where
  \<open>SYNTHESIZER_SYSTEM_INSTRUCTION = ''You are a master synthesizer AI. Your PRIMARY GOAL is to write the final, complete response to the user's query. You will be given the user's query and four refined responses from other AI agents. Your task is to analyze these responses'' @ [CHR 0xE2, CHR 0x80, CHR 0x94] @ ''identifying their strengths to incorporate and their flaws to discard. Use this analysis to construct the single best possible answer for the user. Do not just critique the other agents; your output should BE the final, polished response.''\<close>

definition MEMORY_AGENT_SYSTEM_INSTRUCTION :: string where
  \<open>MEMORY_AGENT_SYSTEM_INSTRUCTION = ''You are a memory management AI. Your task is to analyze the user's latest message in the context of the conversation. Identify and extract ONLY crucial, long-term facts about the user (e.g., name, preferences, goals, key life details). Do NOT extract trivial information. If important new information is found, output it as a concise statement. If the user explicitly asks you to remember something, save it. If no new important information is found or the user's message is trivial, output the exact string 'NO_UPDATE'.''\<close>

definition IMAGE_MODEL :: string where
  "IMAGE_MODEL = ''gemini-2.5-flash-image-preview''"

definition QUOTA_TEXT :: string where
  "QUOTA_TEXT = ''Anda telah melebihi kuota API Anda saat ini. Silakan periksa paket dan detail tagihan Anda, atau coba lagi nanti.''"

definition CREDENTIAL_TEXT :: string where
  "CREDENTIAL_TEXT = ''API key tidak valid. Silakan periksa kembali API key Anda di pengaturan.''"

definition FALLBACK_TEXT :: string where
  "FALLBACK_TEXT = ''Could not get a response.''"

section \<open>Helpers of the handler\<close>

definition appendMessage :: "string \<Rightarrow> message \<Rightarrow> chat_session list \<Rightarrow> chat_session list" where
  "appendMessage cid m cs =
     map (\<lambda>c. if chat_id c = cid then c\<lparr>messages := messages c @ [m]\<rparr> else c) cs"

definition setTitle :: "string \<Rightarrow> string \<Rightarrow> chat_session list \<Rightarrow> chat_session list" where
  "setTitle cid t cs = map (\<lambda>c. if chat_id c = cid then c\<lparr>title := t\<rparr> else c) cs"

definition apply_update :: "string \<Rightarrow> update \<Rightarrow> app_state \<Rightarrow> app_state" where
  "apply_update cid u st =
     (case u of
        AppendMessage m \<Rightarrow> st\<lparr>chats := appendMessage cid m (chats st)\<rparr>
      | AddMemory f \<Rightarrow> st\<lparr>memory := memory st @ [f]\<rparr>
      | SetTitle t \<Rightarrow> st\<lparr>chats := setTitle cid t (chats st)\<rparr>)"

definition modelMessage :: "part list \<Rightarrow> message" where
  "modelMessage ps =
     \<lparr>role = Model, parts = ps, msg_file = None, memoryUpdated = None,
      attachmentName = None, groundingChunks = None\<rparr>"

text \<open>\<^verbatim>\<open>apiKey || process.env.API_KEY\<close>, and \<open>None\<close> when the result is falsy.\<close>

definition finalApiKey :: "app_state \<Rightarrow> string option" where
  "finalApiKey st =
     (if apiKey st \<noteq> [] then Some (apiKey st)
      else case env_API_KEY st of
             None \<Rightarrow> None
           | Some k \<Rightarrow> if k \<noteq> [] then Some k else None)"

definition fileToGenerativePart :: "js_file \<Rightarrow> part option" where
  "fileToGenerativePart f =
     (case file_payload f of
        None \<Rightarrow> None
      | Some base64Data \<Rightarrow> Some (InlineData (file_type f) base64Data))"

definition buildApiHistory :: "message list \<Rightarrow> content list" where
  "buildApiHistory msgs =
     map (\<lambda>msg.
       let content = \<lparr>c_role = role msg, c_parts = parts msg\<rparr> in
       if role msg = User then
         (case msg_file msg of
            None \<Rightarrow> content
          | Some f \<Rightarrow>
              (case fileToGenerativePart f of
                 None \<Rightarrow> content
               | Some filePart \<Rightarrow> content\<lparr>c_parts := filePart # c_parts content\<rparr>))
       else content) msgs"

text \<open>\<^verbatim>\<open>activeChat?.messages ?? []\<close>, with \<^verbatim>\<open>activeChat = chats.find(c => c.id === activeChatId)\<close>.\<close>

definition activeChat :: "app_state \<Rightarrow> chat_session option" where
  "activeChat st =
     (case activeChatId st of
        None \<Rightarrow> None
      | Some cid \<Rightarrow> find (\<lambda>c. chat_id c = cid) (chats st))"

definition activeMessages :: "app_state \<Rightarrow> message list" where
  "activeMessages st = (case activeChat st of None \<Rightarrow> [] | Some c \<Rightarrow> messages c)"

definition issue :: "gateway \<Rightarrow> nat \<Rightarrow> site \<Rightarrow> request \<Rightarrow> nat \<times> (string + response)" where
  "issue gw t s rq = (case gw s rq of (latency, r) \<Rightarrow> (t + latency, r))"

definition generateTitle :: "gateway \<Rightarrow> app_state \<Rightarrow> string \<Rightarrow> issued list \<times> (nat \<times> update) list" where
  \<open>generateTitle gw st text =
     (case finalApiKey st of
        None \<Rightarrow> ([], [])
      | Some k \<Rightarrow>
          let prompt = ''Generate a very short, concise title (4 words max) for a conversation starting with this message: "'' @ text @ ''". Do not include quotes or any preamble in your response.'';
              rq = \<lparr>req_model = ''gemini-1.5-flash'',
                    req_contents = [\<lparr>c_role = User, c_parts = [Text (Some prompt)]\<rparr>],
                    req_systemInstruction = None, req_tools = [], req_responseModalities = []\<rparr>
          in ([(0, TitleCall, rq)],
              (case issue gw 0 TitleCall rq of
                 (t, Inl e) \<Rightarrow> []
               | (t, Inr result) \<Rightarrow>
                   (case res_text result of
                      None \<Rightarrow> []
                    | Some s \<Rightarrow> [(t, SetTitle (filter (\<lambda>c. c \<noteq> CHR 0x22) (trim s)))]))))\<close>

definition memoryContext :: "string list \<Rightarrow> string" where
  "memoryContext facts =
     (if length facts > 0
      then ''--- Start User Memory ---\<newline>The user has provided the following information about themselves. Use this to personalize your response:\<newline>- ''
           @ join ''\<newline>- '' facts @ ''\<newline>--- End User Memory ---\<newline>\<newline>''
      else [])"

datatype thrown = ErrorObject string | OtherValue

text \<open>
  The text of the \<^verbatim>\<open>catch\<close> block. Every value thrown inside the \<^verbatim>\<open>try\<close> is an
  \<^verbatim>\<open>Error\<close>: the handler's own \<^verbatim>\<open>throw new Error\<close> and the rejections of the Gateway.
\<close>

definition errorMessageText :: "thrown \<Rightarrow> string" where
  "errorMessageText error =
     (case error of
        OtherValue \<Rightarrow> ''Sorry, I encountered an error. Please try again.''
      | ErrorObject m \<Rightarrow>
          if str_includes m ''RESOURCE_EXHAUSTED'' then QUOTA_TEXT
          else if str_includes m ''API key not valid'' then CREDENTIAL_TEXT
          else ''Terjadi kesalahan: '' @ m)"

definition caught :: "issued list \<Rightarrow> nat \<Rightarrow> thrown \<Rightarrow> nat option \<Rightarrow> nat option \<Rightarrow> string option \<Rightarrow> turn" where
  "caught cs t error ms ps status =
     \<lparr>t_calls = cs,
      t_updates = [(t, AppendMessage (modelMessage [Text (Some (errorMessageText error))]))],
      t_memorySettled = ms, t_pipelineSettled = ps, t_status = status\<rparr>"

section \<open>The memory extraction task\<close>

text \<open>
  The immediately invoked \<^verbatim>\<open>memoryPromise\<close>: the calls it issues, the time at which it
  settles and the value it leaves in \<^verbatim>\<open>newMemory\<close>. It never rejects: a rejected call,
  and the \<^verbatim>\<open>TypeError\<close> of \<^verbatim>\<open>response.text.trim()\<close> on an undefined text, end in
  its \<^verbatim>\<open>catch\<close>.
\<close>

definition memoryRequest :: "content list \<Rightarrow> string \<Rightarrow> request" where
  "memoryRequest mainChatHistory input =
     \<lparr>req_model = ''gemini-1.5-flash'',
      req_contents = mainChatHistory @ [\<lparr>c_role = User, c_parts = [Text (Some input)]\<rparr>],
      req_systemInstruction = Some MEMORY_AGENT_SYSTEM_INSTRUCTION,
      req_tools = [], req_responseModalities = []\<rparr>"

definition memoryPromise :: "gateway \<Rightarrow> content list \<Rightarrow> string \<Rightarrow> issued list \<times> nat \<times> string option" where
  "memoryPromise gw mainChatHistory input =
     (if trim input = [] then ([], 0, None)
      else
        let rq = memoryRequest mainChatHistory input in
        case issue gw 0 MemoryCall rq of
          (t, Inl e) \<Rightarrow> ([(0, MemoryCall, rq)], t, None)
        | (t, Inr response) \<Rightarrow>
            ([(0, MemoryCall, rq)], t,
             (case res_text response of
                None \<Rightarrow> None
              | Some s \<Rightarrow>
                  let memoryText = trim s in
                  if memoryText \<noteq> [] \<and> memoryText \<noteq> ''NO_UPDATE'' then Some memoryText
                  else None)))"

section \<open>The multi-agent pipeline\<close>

definition attachmentLabel :: "js_file option \<Rightarrow> string" where
  "attachmentLabel att =
     (case att of
        None \<Rightarrow> ''file''
      | Some f \<Rightarrow> if file_name f \<noteq> [] then file_name f else ''file'')"

definition textForContext :: "part list \<Rightarrow> js_file option \<Rightarrow> string" where
  "textForContext userParts att =
     join ''\<newline>''
       (map (\<lambda>p. case p of
                    Text t \<Rightarrow> (case t of None \<Rightarrow> [] | Some s \<Rightarrow> s)
                  | InlineData mimeType d \<Rightarrow> ''[Attachment: '' @ attachmentLabel att @ '']'')
            userParts)"

text \<open>The template literal of \<^verbatim>\<open>refinementContext\<close>, with its four holes.\<close>

definition refinementTemplate :: "string option \<Rightarrow> string option \<Rightarrow> string option \<Rightarrow> string option \<Rightarrow> string" where
  \<open>refinementTemplate initialAnswer other0 other1 other2 =
     ''My initial response was: "'' @ js_str initialAnswer
     @ ''". The other agents responded with: 1. "'' @ js_str other0
     @ ''" 2. "'' @ js_str other1
     @ ''" 3. "'' @ js_str other2
     @ ''". Based on this context, critically re-evaluate and provide a new, improved response to the original query.''\<close>

definition refinementContext :: "string option list \<Rightarrow> string option \<Rightarrow> nat \<Rightarrow> string" where
  "refinementContext initialAnswers initialAnswer index =
     (let otherAnswers = filter_other index initialAnswers in
      refinementTemplate initialAnswer
        (at_index otherAnswers 0) (at_index otherAnswers 1) (at_index otherAnswers 2))"

definition internalTurn :: "string \<Rightarrow> string \<Rightarrow> content" where
  "internalTurn ctx internal =
     \<lparr>c_role = User,
      c_parts = [Text (Some (ctx @ ''\<newline>\<newline>---INTERNAL CONTEXT---\<newline>'' @ internal))]\<rparr>"

definition synthesizerContext :: "string option list \<Rightarrow> string" where
  \<open>synthesizerContext refinedAnswers =
     ''Here are the four refined responses to the user's query. Your task is to synthesize them into the best single, final answer.\<newline>\<newline>Refined Response 1:\<newline>"''
     @ js_str (at_index refinedAnswers 0) @ ''"\<newline>\<newline>Refined Response 2:\<newline>"''
     @ js_str (at_index refinedAnswers 1) @ ''"\<newline>\<newline>Refined Response 3:\<newline>"''
     @ js_str (at_index refinedAnswers 2) @ ''"\<newline>\<newline>Refined Response 4:\<newline>"''
     @ js_str (at_index refinedAnswers 3) @ [CHR 0x22]\<close>

text \<open>
  A call of the pipeline: \<^verbatim>\<open>{ model, contents, config: { ...agentConfig, systemInstruction:
  memoryContext + instruction } }\<close>, where \<^verbatim>\<open>agentConfig.tools\<close> is set exactly when
  \<^verbatim>\<open>isGroundingEnabled\<close> holds.
\<close>

definition agentRequest :: "app_state \<Rightarrow> content list \<Rightarrow> string \<Rightarrow> request" where
  "agentRequest st contents instruction =
     \<lparr>req_model = model st, req_contents = contents,
      req_systemInstruction = Some (memoryContext (memory st) @ instruction),
      req_tools = (if isGroundingEnabled st then [GoogleSearch] else []),
      req_responseModalities = []\<rparr>"

text \<open>
  The three stages of \<^verbatim>\<open>multiAgentPromise\<close>. A stage starts all its calls at once and
  awaits them with \<^verbatim>\<open>Promise.all\<close>: it yields the calls it issued, the time at which
  the \<^verbatim>\<open>await\<close> ends and what the \<^verbatim>\<open>await\<close> gives.
\<close>

definition initialStage :: "gateway \<Rightarrow> app_state \<Rightarrow> content list \<Rightarrow> issued list \<times> nat \<times> (string + response list)" where
  "initialStage gw st conversationForAgents =
     (let rq = agentRequest st conversationForAgents INITIAL_SYSTEM_INSTRUCTION in
      (map (\<lambda>i. (0, InitialCall i, rq)) [0..<4],
       promise_all (map (\<lambda>i. issue gw 0 (InitialCall i) rq) [0..<4])))"

definition refinementRequests :: "app_state \<Rightarrow> content list \<Rightarrow> string \<Rightarrow> string option list \<Rightarrow> request list" where
  "refinementRequests st mainChatHistory ctx initialAnswers =
     map (\<lambda>(index, initialAnswer).
            agentRequest st
              (mainChatHistory @ [internalTurn ctx (refinementContext initialAnswers initialAnswer index)])
              REFINEMENT_SYSTEM_INSTRUCTION)
         (enumerate 0 initialAnswers)"

definition refinementStage :: "gateway \<Rightarrow> app_state \<Rightarrow> content list \<Rightarrow> string \<Rightarrow> nat \<Rightarrow> string option list \<Rightarrow> issued list \<times> nat \<times> (string + response list)" where
  "refinementStage gw st mainChatHistory ctx t initialAnswers =
     (let refinements = enumerate 0 (refinementRequests st mainChatHistory ctx initialAnswers) in
      (map (\<lambda>(i, rq). (t, RefinementCall i, rq)) refinements,
       promise_all (map (\<lambda>(i, rq). issue gw t (RefinementCall i) rq) refinements)))"

definition synthesizerStage :: "gateway \<Rightarrow> app_state \<Rightarrow> content list \<Rightarrow> string \<Rightarrow> nat \<Rightarrow> string option list \<Rightarrow> issued list \<times> nat \<times> (string + response)" where
  "synthesizerStage gw st mainChatHistory ctx t refinedAnswers =
     (let rq = agentRequest st
                 (mainChatHistory @ [internalTurn ctx (synthesizerContext refinedAnswers)])
                 SYNTHESIZER_SYSTEM_INSTRUCTION
      in ([(t, SynthesizerCall, rq)], issue gw t SynthesizerCall rq))"

record pipeline_run =
  p_calls :: "issued list"
  p_settled :: nat
  p_result :: "string + response"
  p_status :: string

text \<open>
  The immediately invoked \<^verbatim>\<open>multiAgentPromise\<close>: a rejected \<^verbatim>\<open>await\<close> leaves the
  function there, and each pause between two stages takes its 1000 milliseconds.
\<close>

definition multiAgentPromise :: "gateway \<Rightarrow> app_state \<Rightarrow> content list \<Rightarrow> content list \<Rightarrow> part list \<Rightarrow> pipeline_run" where
  "multiAgentPromise gw st mainChatHistory conversationForAgents userParts =
     (case initialStage gw st conversationForAgents of
        (initialCalls, t1, Inl e) \<Rightarrow>
          \<lparr>p_calls = initialCalls, p_settled = t1, p_result = Inl e,
           p_status = ''Initializing agents...''\<rparr>
      | (initialCalls, t1, Inr initialResponses) \<Rightarrow>
          let initialAnswers = map res_text initialResponses;
              ctx = textForContext userParts (attachment st)
          in (case refinementStage gw st mainChatHistory ctx (t1 + 1000) initialAnswers of
                (refinementCalls, t3, Inl e) \<Rightarrow>
                  \<lparr>p_calls = initialCalls @ refinementCalls, p_settled = t3, p_result = Inl e,
                   p_status = ''Refining answers...''\<rparr>
              | (refinementCalls, t3, Inr refinedResponses) \<Rightarrow>
                  let refinedAnswers = map res_text refinedResponses in
                  (case synthesizerStage gw st mainChatHistory ctx (t3 + 1000) refinedAnswers of
                     (synthesizerCalls, t5, finalResult) \<Rightarrow>
                       \<lparr>p_calls = initialCalls @ refinementCalls @ synthesizerCalls,
                        p_settled = t5, p_result = finalResult,
                        p_status = ''Synthesizing final response...''\<rparr>)))"

section \<open>The submit handler\<close>

text \<open>JavaScript truthiness of a string that may be \<^verbatim>\<open>null\<close>.\<close>

definition truthy :: "string option \<Rightarrow> bool" where
  "truthy v = (case v of None \<Rightarrow> False | Some s \<Rightarrow> s \<noteq> [])"

text \<open>
  The update of lines 1266 to 1268: \<^verbatim>\<open>memory.includes\<close> compares whole facts with
  \<^verbatim>\<open>===\<close>.
\<close>

definition memoryUpdates :: "string list \<Rightarrow> string option \<Rightarrow> update list" where
  "memoryUpdates facts newMemory =
     (case newMemory of
        None \<Rightarrow> []
      | Some f \<Rightarrow> if f \<noteq> [] \<and> f \<notin> set facts then [AddMemory f] else [])"

text \<open>The values that both paths bind before they call the Gateway.\<close>

definition mainChatHistory :: "app_state \<Rightarrow> content list" where
  "mainChatHistory st = buildApiHistory (activeMessages st)"

definition conversationForAgents :: "app_state \<Rightarrow> part list \<Rightarrow> content list" where
  "conversationForAgents st userParts =
     mainChatHistory st @ [\<lparr>c_role = User, c_parts = userParts\<rparr>]"

definition bypassRequest :: "app_state \<Rightarrow> part list \<Rightarrow> request" where
  "bypassRequest st userParts =
     \<lparr>req_model = model st,
      req_contents = conversationForAgents st userParts,
      req_systemInstruction = None, req_tools = [],
      req_responseModalities = [IMAGE, TEXT]\<rparr>"

definition bypassTurn :: "gateway \<Rightarrow> app_state \<Rightarrow> part list \<Rightarrow> turn" where
  "bypassTurn gw st userParts =
     (let rq = bypassRequest st userParts in
      case issue gw 0 BypassCall rq of
        (t, Inl e) \<Rightarrow> caught [(0, BypassCall, rq)] t (ErrorObject e) None None (Some ''Nano banana'')
      | (t, Inr response) \<Rightarrow>
          let ps = (case candidate_parts response of
                      None \<Rightarrow> [Text (Some FALLBACK_TEXT)]
                    | Some ps \<Rightarrow> ps)
          in \<lparr>t_calls = [(0, BypassCall, rq)],
              t_updates = [(t, AppendMessage (modelMessage ps))],
              t_memorySettled = None, t_pipelineSettled = None,
              t_status = Some ''Nano banana''\<rparr>)"

text \<open>The two tasks of the main path, started together, and the message of line 1271.\<close>

definition memoryTask :: "gateway \<Rightarrow> app_state \<Rightarrow> issued list \<times> nat \<times> string option" where
  "memoryTask gw st = memoryPromise gw (mainChatHistory st) (userInput st)"

definition pipelineTask :: "gateway \<Rightarrow> app_state \<Rightarrow> part list \<Rightarrow> pipeline_run" where
  "pipelineTask gw st userParts =
     multiAgentPromise gw st (mainChatHistory st) (conversationForAgents st userParts) userParts"

definition finalMessage :: "response \<Rightarrow> string option \<Rightarrow> message" where
  "finalMessage finalResult newMemory =
     \<lparr>role = Model, parts = [Text (res_text finalResult)], msg_file = None,
      memoryUpdated = Some (truthy newMemory), attachmentName = None,
      groundingChunks = candidate_groundingChunks finalResult\<rparr>"

text \<open>
  \<^verbatim>\<open>await Promise.all([memoryPromise, multiAgentPromise])\<close> and what follows it. The
  memory task never rejects, so the \<^verbatim>\<open>await\<close> is rejected when the pipeline is, at that
  time, and is fulfilled when both tasks are.
\<close>

definition mainTurn :: "gateway \<Rightarrow> app_state \<Rightarrow> part list \<Rightarrow> turn" where
  "mainTurn gw st userParts =
     (case memoryTask gw st of
        (memoryCalls, tm, newMemory) \<Rightarrow>
          let run = pipelineTask gw st userParts in
          (case p_result run of
             Inl e \<Rightarrow>
               caught (memoryCalls @ p_calls run) (p_settled run) (ErrorObject e)
                 (Some tm) (Some (p_settled run)) (Some (p_status run))
           | Inr finalResult \<Rightarrow>
               let t = max tm (p_settled run) in
               \<lparr>t_calls = memoryCalls @ p_calls run,
                t_updates = map (\<lambda>u. (t, u)) (memoryUpdates (memory st) newMemory)
                            @ [(t, AppendMessage (finalMessage finalResult newMemory))],
                t_memorySettled = Some tm, t_pipelineSettled = Some (p_settled run),
                t_status = Some (p_status run)\<rparr>))"

text \<open>
  \<^verbatim>\<open>userPartsForApi\<close>: the part of the attachment, when there is one, then the text,
  when there is some; \<open>None\<close> when the attachment cannot be read.
\<close>

definition userPartsForApi :: "app_state \<Rightarrow> string \<Rightarrow> part list option" where
  "userPartsForApi st trimmedInput =
     (let textParts = (if trimmedInput \<noteq> [] then [Text (Some trimmedInput)] else []) in
      case attachment st of
        None \<Rightarrow> Some textParts
      | Some f \<Rightarrow>
          (case fileToGenerativePart f of
             None \<Rightarrow> None
           | Some filePart \<Rightarrow> Some (filePart # textParts)))"

text \<open>The body of the \<^verbatim>\<open>try\<close> block with its \<^verbatim>\<open>catch\<close>.\<close>

definition sendMessage :: "gateway \<Rightarrow> app_state \<Rightarrow> string \<Rightarrow> turn" where
  "sendMessage gw st trimmedInput =
     (case finalApiKey st of
        None \<Rightarrow>
          caught [] 0 (ErrorObject ''API key is not set. Please add it in Settings.'') None None None
      | Some k \<Rightarrow>
          (case userPartsForApi st trimmedInput of
             None \<Rightarrow>
               \<lparr>t_calls = [],
                t_updates = [(0, AppendMessage (modelMessage
                   [Text (Some ''Sorry, failed to process the attached file.'')]))],
                t_memorySettled = None, t_pipelineSettled = None, t_status = None\<rparr>
           | Some userParts \<Rightarrow>
               if model st = IMAGE_MODEL then bypassTurn gw st userParts
               else mainTurn gw st userParts))"

definition idle :: "app_state \<Rightarrow> outcome" where
  "idle st = \<lparr>final = st, calls = [], updates = [], memorySettled = None, pipelineSettled = None\<rparr>"

definition userMessage :: "app_state \<Rightarrow> message" where
  "userMessage st =
     (let trimmedInput = trim (userInput st) in
      \<lparr>role = User,
       parts = (if trimmedInput \<noteq> [] then [Text (Some trimmedInput)] else []),
       msg_file = attachment st, memoryUpdated = None,
       attachmentName = map_option file_name (attachment st),
       groundingChunks = None\<rparr>)"

definition titleText :: "app_state \<Rightarrow> string" where
  "titleText st =
     (let trimmedInput = trim (userInput st) in
      if trimmedInput \<noteq> [] then trimmedInput
      else ''Chat with '' @ (case attachment st of
                               None \<Rightarrow> ''attachment''
                             | Some f \<Rightarrow> if file_name f \<noteq> [] then file_name f else ''attachment''))"

text \<open>The title is generated, without being awaited, for the first message of a chat.\<close>

definition isFirstMessage :: "app_state \<Rightarrow> bool" where
  "isFirstMessage st =
     (case activeChat st of
        None \<Rightarrow> False
      | Some c \<Rightarrow> length (messages c) = 0)"

definition titleTask :: "gateway \<Rightarrow> app_state \<Rightarrow> issued list \<times> (nat \<times> update) list" where
  "titleTask gw st =
     (if isFirstMessage st then generateTitle gw st (titleText st) else ([], []))"

text \<open>
  \<^verbatim>\<open>handleSubmit\<close>: the state once everything the submission started has settled, the
  Gateway calls in the order they are issued, and the updates of the shared state, each
  with the time at which it is performed.
\<close>

definition handleSubmit :: "gateway \<Rightarrow> app_state \<Rightarrow> outcome" where
  "handleSubmit gw st =
     (case activeChatId st of
        None \<Rightarrow> idle st
      | Some cid \<Rightarrow>
          if cid = [] then idle st
          else if trim (userInput st) = [] \<and> attachment st = None then idle st
          else
            let titled = titleTask gw st;
                sent = sendMessage gw st (trim (userInput st));
                us = [(0, AppendMessage (userMessage st))] @ t_updates sent @ snd titled;
                st1 = st\<lparr>voiceError := None, userInput := [], attachment := None, isLoading := True\<rparr>;
                st2 = fold (\<lambda>(t, u). apply_update cid u) us st1;
                st3 = (case t_status sent of
                         None \<Rightarrow> st2
                       | Some status \<Rightarrow> st2\<lparr>loadingStatus := status\<rparr>)
            in \<lparr>final = st3\<lparr>isLoading := False\<rparr>,
                calls = fst titled @ t_calls sent,
                updates = us,
                memorySettled = t_memorySettled sent,
                pipelineSettled = t_pipelineSettled sent\<rparr>)"

section \<open>Paths of a submission and views of its outcome\<close>

text \<open>
  A submission passes the two guards at the head of the handler when a chat is active and
  there is a text or an attachment. It reaches the main pipeline when, moreover, an API
  key is found, the attachment (if any) can be read and the model is not the image model;
  with the image model it takes the bypass.
\<close>

definition submitted :: "app_state \<Rightarrow> bool" where
  "submitted st =
     (truthy (activeChatId st) \<and> (trim (userInput st) \<noteq> [] \<or> attachment st \<noteq> None))"

definition main_pipeline :: "app_state \<Rightarrow> bool" where
  "main_pipeline st =
     (submitted st \<and> finalApiKey st \<noteq> None
      \<and> userPartsForApi st (trim (userInput st)) \<noteq> None \<and> model st \<noteq> IMAGE_MODEL)"

definition bypass_path :: "app_state \<Rightarrow> bool" where
  "bypass_path st =
     (submitted st \<and> finalApiKey st \<noteq> None
      \<and> userPartsForApi st (trim (userInput st)) \<noteq> None \<and> model st = IMAGE_MODEL)"

text \<open>The sites called, the messages appended and the facts added, in order.\<close>

definition call_sites :: "issued list \<Rightarrow> site list" where
  "call_sites cs = map (\<lambda>(t, s, rq). s) cs"

fun appended_messages :: "(nat \<times> update) list \<Rightarrow> message list" where
  "appended_messages [] = []"
| "appended_messages ((t, AppendMessage m) # us) = m # appended_messages us"
| "appended_messages ((t, AddMemory f) # us) = appended_messages us"
| "appended_messages ((t, SetTitle s) # us) = appended_messages us"

fun added_facts :: "(nat \<times> update) list \<Rightarrow> string list" where
  "added_facts [] = []"
| "added_facts ((t, AddMemory f) # us) = f # added_facts us"
| "added_facts ((t, AppendMessage m) # us) = added_facts us"
| "added_facts ((t, SetTitle s) # us) = added_facts us"

text \<open>The updates of the messages and of the memory set, with their times.\<close>

fun shared_updates :: "(nat \<times> update) list \<Rightarrow> (nat \<times> update) list" where
  "shared_updates [] = []"
| "shared_updates ((t, SetTitle s) # us) = shared_updates us"
| "shared_updates ((t, AppendMessage m) # us) = (t, AppendMessage m) # shared_updates us"
| "shared_updates ((t, AddMemory f) # us) = (t, AddMemory f) # shared_updates us"

text \<open>The stage of a site, and the requests issued at the sites of a kind, in order.\<close>

definition is_initial :: "site \<Rightarrow> bool" where
  "is_initial s = (case s of InitialCall i \<Rightarrow> True | _ \<Rightarrow> False)"

definition is_refinement :: "site \<Rightarrow> bool" where
  "is_refinement s = (case s of RefinementCall i \<Rightarrow> True | _ \<Rightarrow> False)"

definition is_stage :: "site \<Rightarrow> bool" where
  "is_stage s = (is_initial s \<or> is_refinement s \<or> s = SynthesizerCall)"

definition requests_at :: "(site \<Rightarrow> bool) \<Rightarrow> issued list \<Rightarrow> (site \<times> request) list" where
  "requests_at P cs = map (\<lambda>(t, s, rq). (s, rq)) (filter (\<lambda>(t, s, rq). P s) cs)"

section \<open>Example submissions\<close>

text \<open>
  A chat with one earlier exchange, one remembered fact, a text model, grounding switched
  on, and a question typed into the input.
\<close>

definition example_chat :: chat_session where
  "example_chat =
     \<lparr>chat_id = ''1'', title = ''Greetings'',
      messages =
        [\<lparr>role = User, parts = [Text (Some ''hello'')], msg_file = None, memoryUpdated = None,
          attachmentName = None, groundingChunks = None\<rparr>,
         modelMessage [Text (Some ''hi'')]]\<rparr>"

definition example_state :: app_state where
  "example_state =
     \<lparr>chats = [example_chat], activeChatId = Some ''1'', memory = [''Likes tea''],
      model = ''gemini-2.5-flash'', apiKey = ''key'', env_API_KEY = None,
      userInput = ''Explain photosynthesis '', attachment = None, isGroundingEnabled = True,
      isLoading = False, loadingStatus = [], voiceError = None\<rparr>"

definition example_history :: "content list" where
  "example_history =
     [\<lparr>c_role = User, c_parts = [Text (Some ''hello'')]\<rparr>,
      \<lparr>c_role = Model, c_parts = [Text (Some ''hi'')]\<rparr>]"

definition example_picture :: js_file where
  "example_picture = \<lparr>file_name = ''leaf.png'', file_type = ''image/png'', file_payload = Some ''iVBOR''\<rparr>"

definition answer :: "string \<Rightarrow> response" where
  "answer s = \<lparr>res_text = Some s, candidate_parts = None, candidate_groundingChunks = None\<rparr>"

text \<open>
  A Gateway that fulfils every call: the agents answer after 10, the refinements after 20
  and the synthesizer after 30 milliseconds, the memory call proposes the remembered fact
  after 5, and the image model returns one picture.
\<close>

fun example_gateway :: gateway where
  "example_gateway (InitialCall i) rq =
     (10, Inr (answer (if i = 0 then ''a0'' else if i = 1 then ''a1''
                       else if i = 2 then ''a2'' else ''a3'')))"
| "example_gateway (RefinementCall i) rq =
     (20, Inr (answer (if i = 0 then ''r0'' else if i = 1 then ''r1''
                       else if i = 2 then ''r2'' else ''r3'')))"
| "example_gateway SynthesizerCall rq = (30, Inr (answer ''final''))"
| "example_gateway MemoryCall rq = (5, Inr (answer '' Likes tea''))"
| "example_gateway TitleCall rq = (1, Inr (answer ''Plants''))"
| "example_gateway BypassCall rq =
     (40, Inr \<lparr>res_text = None, candidate_parts = Some [InlineData ''image/png'' ''AAAA''],
               candidate_groundingChunks = None\<rparr>)"

text \<open>The same submission with the image model selected.\<close>

definition image_state :: app_state where
  "image_state = example_state\<lparr>model := IMAGE_MODEL\<rparr>"

text \<open>
  A submission of a picture with nothing but white space in the input: a space, a no-break
  space, a tab and an ideographic space.
\<close>

definition picture_state :: app_state where
  "picture_state =
     example_state\<lparr>userInput := [CHR 0x20, CHR 0xC2, CHR 0xA0, CHR 0x09, CHR 0xE3, CHR 0x80, CHR 0x80],
                   attachment := Some example_picture\<rparr>"

text \<open>The same submission with nothing remembered yet.\<close>

definition fresh_state :: app_state where
  "fresh_state = example_state\<lparr>memory := []\<rparr>"


definition early_failure_gateway :: gateway where
  "early_failure_gateway = example_gateway(InitialCall 0 := (\<lambda>rq. (3, Inl ''503 overloaded'')))"

definition memory_failure_gateway :: gateway where
  "memory_failure_gateway = example_gateway(MemoryCall := (\<lambda>rq. (5, Inl ''500 internal'')))"




section \<open>Auxiliary facts\<close>

subsection \<open>Views of lists of calls and updates\<close>

lemma shared_updates_append: "shared_updates (us @ vs) = shared_updates us @ shared_updates vs"
  by (induction us rule: shared_updates.induct) simp_all

lemma added_facts_append: "added_facts (us @ vs) = added_facts us @ added_facts vs"
  by (induction us rule: added_facts.induct) simp_all

lemma appended_messages_append:
  "appended_messages (us @ vs) = appended_messages us @ appended_messages vs"
  by (induction us rule: appended_messages.induct) simp_all

lemma call_sites_append: "call_sites (cs @ ds) = call_sites cs @ call_sites ds"
  by (simp add: call_sites_def)

lemma requests_at_append: "requests_at P (cs @ ds) = requests_at P cs @ requests_at P ds"
  by (simp add: requests_at_def)

lemma requests_at_none:
  "(\<And>s. s \<in> set (call_sites cs) \<Longrightarrow> \<not> P s) \<Longrightarrow> requests_at P cs = []"
  by (induction cs) (auto simp add: requests_at_def call_sites_def)

lemma length4: "length xs = 4 \<Longrightarrow> \<exists>a b c d. xs = [a, b, c, d]"
  by (cases xs; simp; cases "tl xs"; simp; cases "tl (tl xs)"; simp; cases "tl (tl (tl xs))"; simp)

subsection \<open>The handler outside its \<^verbatim>\<open>try\<close> block\<close>

lemma generateTitle_sites: "set (call_sites (fst (generateTitle gw st s))) \<subseteq> {TitleCall}"
  by (simp add: generateTitle_def call_sites_def Let_def split: option.splits)

lemma generateTitle_shared: "shared_updates (snd (generateTitle gw st s)) = []"
  by (simp add: generateTitle_def Let_def split: option.splits prod.splits sum.splits)

lemma titleTask_sites: "set (call_sites (fst (titleTask gw st))) \<subseteq> {TitleCall}"
  using generateTitle_sites by (simp add: titleTask_def call_sites_def)

lemma titleTask_shared: "shared_updates (snd (titleTask gw st)) = []"
  by (simp add: titleTask_def generateTitle_shared)

lemma memory_fold:
  "memory (fold (\<lambda>(t, u). apply_update cid u) us s) = memory s @ added_facts us"
  by (induction us arbitrary: s rule: added_facts.induct) (simp_all add: apply_update_def)

lemma handleSubmit_idle: "\<not> submitted st \<Longrightarrow> handleSubmit gw st = idle st"
  by (auto simp add: submitted_def handleSubmit_def truthy_def split: option.splits)

lemma handleSubmit_calls:
  "submitted st \<Longrightarrow>
   calls (handleSubmit gw st) =
     fst (titleTask gw st) @ t_calls (sendMessage gw st (trim (userInput st)))"
  by (auto simp add: submitted_def handleSubmit_def truthy_def Let_def split: option.splits)

lemma handleSubmit_updates:
  "submitted st \<Longrightarrow>
   updates (handleSubmit gw st) =
     (0, AppendMessage (userMessage st))
     # t_updates (sendMessage gw st (trim (userInput st))) @ snd (titleTask gw st)"
  by (auto simp add: submitted_def handleSubmit_def truthy_def Let_def split: option.splits)

lemma handleSubmit_settled:
  "submitted st \<Longrightarrow>
   memorySettled (handleSubmit gw st) = t_memorySettled (sendMessage gw st (trim (userInput st)))
   \<and> pipelineSettled (handleSubmit gw st) = t_pipelineSettled (sendMessage gw st (trim (userInput st)))"
  by (auto simp add: submitted_def handleSubmit_def truthy_def Let_def split: option.splits)

lemma handleSubmit_memory:
  "memory (final (handleSubmit gw st)) = memory st @ added_facts (updates (handleSubmit gw st))"
  by (auto simp add: handleSubmit_def idle_def Let_def memory_fold added_facts_append
      apply_update_def split: option.splits)

lemma sendMessage_main:
  "main_pipeline st \<Longrightarrow> userPartsForApi st (trim (userInput st)) = Some ps \<Longrightarrow>
   sendMessage gw st (trim (userInput st)) = mainTurn gw st ps"
  by (auto simp add: main_pipeline_def sendMessage_def split: option.splits)

lemma sendMessage_bypass:
  "bypass_path st \<Longrightarrow> userPartsForApi st (trim (userInput st)) = Some ps \<Longrightarrow>
   sendMessage gw st (trim (userInput st)) = bypassTurn gw st ps"
  by (auto simp add: bypass_path_def sendMessage_def split: option.splits)

subsection \<open>The stages\<close>

lemma first_rejection_None_length:
  "first_rejection ps = None \<Longrightarrow> length (fulfilled_values ps) = length ps"
  by (induction ps rule: first_rejection.induct) (auto split: option.splits if_splits prod.splits)

lemma promise_all_length: "promise_all ps = (t, Inr vs) \<Longrightarrow> length vs = length ps"
  by (auto simp add: promise_all_def first_rejection_None_length split: option.splits)

lemma initialStage_length: "snd (initialStage gw st conv) = (t1, Inr rs) \<Longrightarrow> length rs = 4"
  by (auto simp add: initialStage_def Let_def dest: promise_all_length)

lemma initialStage_calls:
  "fst (initialStage gw st conv) =
     map (\<lambda>i. (0, InitialCall i, agentRequest st conv INITIAL_SYSTEM_INSTRUCTION)) [0..<4]"
  by (simp add: initialStage_def Let_def)

lemma refinementStage_calls:
  "fst (refinementStage gw st h ctx t ans) =
     map (\<lambda>(i, rq). (t, RefinementCall i, rq)) (enumerate 0 (refinementRequests st h ctx ans))"
  by (simp add: refinementStage_def Let_def)

lemma synthesizerStage_calls:
  "call_sites (fst (synthesizerStage gw st h ctx t ans)) = [SynthesizerCall]"
  by (simp add: synthesizerStage_def Let_def call_sites_def)

lemma refinementRequests_four:
  "refinementRequests st h ctx [a0, a1, a2, a3] =
     map (\<lambda>p. agentRequest st (h @ [internalTurn ctx p]) REFINEMENT_SYSTEM_INSTRUCTION)
       [refinementTemplate a0 a1 a2 a3, refinementTemplate a1 a0 a2 a3,
        refinementTemplate a2 a0 a1 a3, refinementTemplate a3 a0 a1 a2]"
  by (simp add: refinementRequests_def enumerate_eq_zip upt_rec refinementContext_def
      filter_other_def at_index_def)

lemma multiAgentPromise_calls_fulfilled:
  assumes "snd (initialStage gw st conv) = (t1, Inr rs)"
  shows "\<exists>tail. set (call_sites tail) \<subseteq> {SynthesizerCall} \<and>
    p_calls (multiAgentPromise gw st h conv ps) =
      fst (initialStage gw st conv)
      @ fst (refinementStage gw st h (textForContext ps (attachment st)) (t1 + 1000) (map res_text rs))
      @ tail"
proof (cases "refinementStage gw st h (textForContext ps (attachment st)) (t1 + 1000) (map res_text rs)")
  case (fields rcs t3 res)
  obtain ics where ics: "initialStage gw st conv = (ics, t1, Inr rs)"
    using assms by (cases "initialStage gw st conv") auto
  show ?thesis
  proof (cases res)
    case (Inl e)
    with fields ics show ?thesis
      by (intro exI[of _ "[]"]) (simp add: multiAgentPromise_def Let_def call_sites_def)
  next
    case (Inr refined)
    obtain scs t5 fr where s:
      "synthesizerStage gw st h (textForContext ps (attachment st)) (t3 + 1000) (map res_text refined)
         = (scs, t5, fr)"
      by (cases "synthesizerStage gw st h (textForContext ps (attachment st)) (t3 + 1000)
                   (map res_text refined)") auto
    have "call_sites scs = [SynthesizerCall]"
      using synthesizerStage_calls[of gw st h "textForContext ps (attachment st)" "t3 + 1000"
          "map res_text refined"] s by simp
    with fields ics Inr s show ?thesis
      by (intro exI[of _ scs]) (simp add: multiAgentPromise_def Let_def)
  qed
qed

lemma main_calls:
  assumes "main_pipeline st" "userPartsForApi st (trim (userInput st)) = Some ps"
  shows "calls (handleSubmit gw st) =
     fst (titleTask gw st) @ fst (memoryTask gw st) @ p_calls (pipelineTask gw st ps)"
proof -
  have "submitted st" using assms(1) by (simp add: main_pipeline_def)
  then show ?thesis
    using sendMessage_main[OF assms]
    by (simp add: handleSubmit_calls mainTurn_def Let_def caught_def split: prod.splits sum.splits)
qed

subsection \<open>The example submissions\<close>

lemmas example_defs =
  example_state_def example_chat_def example_history_def example_picture_def answer_def
  modelMessage_def

lemma example_main_pipeline: "main_pipeline example_state"
  by (simp add: main_pipeline_def submitted_def truthy_def finalApiKey_def userPartsForApi_def
      IMAGE_MODEL_def example_defs trim_def ws_prefix_def white_space_def)

lemma example_userParts:
  "userPartsForApi example_state (trim (userInput example_state))
     = Some [Text (Some ''Explain photosynthesis'')]"
  by (simp add: userPartsForApi_def example_defs trim_def ws_prefix_def white_space_def)

lemma example_initialStage:
  "snd (initialStage example_gateway example_state
          (conversationForAgents example_state [Text (Some ''Explain photosynthesis'')]))
     = (10, Inr [answer ''a0'', answer ''a1'', answer ''a2'', answer ''a3''])"
  by (simp add: initialStage_def Let_def promise_all_def issue_def upt_rec)

lemma example_mainChatHistory: "mainChatHistory example_state = example_history"
  by (simp add: mainChatHistory_def buildApiHistory_def activeMessages_def activeChat_def
      example_defs)

lemma example_textForContext:
  "textForContext [Text (Some ''Explain photosynthesis'')] (attachment example_state)
     = ''Explain photosynthesis''"
  by (simp add: textForContext_def)

subsection \<open>Calls and their tools\<close>

lemma titleTask_views:
  "appended_messages (snd (titleTask gw st)) = [] \<and> added_facts (snd (titleTask gw st)) = []"
  by (simp add: titleTask_def generateTitle_def Let_def split: option.splits prod.splits sum.splits)

lemma titleTask_tools: "(t, s, rq) \<in> set (fst (titleTask gw st)) \<Longrightarrow> s = TitleCall \<and> req_tools rq = []"
  by (auto simp add: titleTask_def generateTitle_def Let_def split: option.splits if_splits)

lemma memoryTask_tools: "(t, s, rq) \<in> set (fst (memoryTask gw st)) \<Longrightarrow> s = MemoryCall \<and> req_tools rq = []"
  by (auto simp add: memoryTask_def memoryPromise_def memoryRequest_def Let_def split: option.splits if_splits prod.splits sum.splits)

lemma memoryTask_skipped: "trim (userInput st) = [] \<Longrightarrow> memoryTask gw st = ([], 0, None)"
  by (simp add: memoryTask_def memoryPromise_def)

lemma initialStage_tools:
  "(t, s, rq) \<in> set (fst (initialStage gw st conv)) \<Longrightarrow> is_stage s \<and> req_tools rq = (if isGroundingEnabled st then [GoogleSearch] else [])"
  by (auto simp add: initialStage_calls is_stage_def is_initial_def agentRequest_def)

lemma refinementRequests_tools:
  "rq \<in> set (refinementRequests st h ctx ans) \<Longrightarrow> req_tools rq = (if isGroundingEnabled st then [GoogleSearch] else [])"
  by (auto simp add: refinementRequests_def agentRequest_def)

lemma refinementStage_tools:
  "(t, s, rq) \<in> set (fst (refinementStage gw st h ctx t2 ans)) \<Longrightarrow> is_stage s \<and> req_tools rq = (if isGroundingEnabled st then [GoogleSearch] else [])"
  using refinementRequests_tools[of _ st h ctx ans]
  by (auto simp add: refinementStage_calls is_stage_def is_refinement_def in_set_enumerate_eq)

lemma synthesizerStage_tools:
  "(t, s, rq) \<in> set (fst (synthesizerStage gw st h ctx t4 ans)) \<Longrightarrow> is_stage s \<and> req_tools rq = (if isGroundingEnabled st then [GoogleSearch] else [])"
  by (auto simp add: synthesizerStage_def Let_def is_stage_def agentRequest_def)

lemma multiAgentPromise_tools:
  assumes "(t, s, rq) \<in> set (p_calls (multiAgentPromise gw st h conv ps))"
  shows "is_stage s \<and> req_tools rq = (if isGroundingEnabled st then [GoogleSearch] else [])"
proof -
  have "(t, s, rq) \<in> set (fst (initialStage gw st conv))
      \<or> (\<exists>ctx t2 ans. (t, s, rq) \<in> set (fst (refinementStage gw st h ctx t2 ans)))
      \<or> (\<exists>ctx t4 ans. (t, s, rq) \<in> set (fst (synthesizerStage gw st h ctx t4 ans)))"
    using assms
    by (auto simp add: multiAgentPromise_def Let_def split: prod.splits sum.splits) (metis fst_conv)+
  then show ?thesis
  proof (elim disjE exE)
    assume "(t, s, rq) \<in> set (fst (initialStage gw st conv))"
    then show ?thesis by (rule initialStage_tools)
  next
    fix ctx t2 ans assume "(t, s, rq) \<in> set (fst (refinementStage gw st h ctx t2 ans))"
    then show ?thesis by (rule refinementStage_tools)
  next
    fix ctx t4 ans assume "(t, s, rq) \<in> set (fst (synthesizerStage gw st h ctx t4 ans))"
    then show ?thesis by (rule synthesizerStage_tools)
  qed
qed

lemma mainTurn_calls: "t_calls (mainTurn gw st ps) = fst (memoryTask gw st) @ p_calls (pipelineTask gw st ps)"
  by (simp add: mainTurn_def Let_def caught_def split: prod.splits sum.splits)

lemma bypassTurn_calls: "t_calls (bypassTurn gw st ps) = [(0, BypassCall, bypassRequest st ps)]"
  by (simp add: bypassTurn_def Let_def caught_def split: prod.splits sum.splits)

lemma memoryTask_calls_nonempty:
  "(t, s, rq) \<in> set (fst (memoryTask gw st)) \<Longrightarrow> trim (userInput st) \<noteq> []"
  by (auto simp add: memoryTask_def memoryPromise_def split: if_splits)

lemma sendMessage_call:
  assumes "(t, s, rq) \<in> set (t_calls (sendMessage gw st x))"
  shows "(model st = IMAGE_MODEL \<and> s = BypassCall \<and> req_tools rq = [])
       \<or> (model st \<noteq> IMAGE_MODEL \<and> s = MemoryCall \<and> req_tools rq = [] \<and> trim (userInput st) \<noteq> [])
       \<or> (model st \<noteq> IMAGE_MODEL \<and> is_stage s
            \<and> req_tools rq = (if isGroundingEnabled st then [GoogleSearch] else []))"
proof (cases "finalApiKey st")
  case None
  with assms show ?thesis by (simp add: sendMessage_def caught_def)
next
  case (Some k)
  show ?thesis
  proof (cases "userPartsForApi st x")
    case None
    with Some assms show ?thesis by (simp add: sendMessage_def)
  next
    case (Some ps)
    show ?thesis
    proof (cases "model st = IMAGE_MODEL")
      case True
      with Some \<open>finalApiKey st = Some k\<close> assms show ?thesis
        by (simp add: sendMessage_def bypassTurn_calls bypassRequest_def)
    next
      case False
      with Some \<open>finalApiKey st = Some k\<close> assms
      have "(t, s, rq) \<in> set (fst (memoryTask gw st)) \<or> (t, s, rq) \<in> set (p_calls (pipelineTask gw st ps))"
        by (simp add: sendMessage_def mainTurn_calls)
      then show ?thesis
      proof
        assume m: "(t, s, rq) \<in> set (fst (memoryTask gw st))"
        show ?thesis
          using False memoryTask_tools[OF m] memoryTask_calls_nonempty[OF m] by simp
      next
        assume "(t, s, rq) \<in> set (p_calls (pipelineTask gw st ps))"
        then show ?thesis
          using False multiAgentPromise_tools unfolding pipelineTask_def by blast
      qed
    qed
  qed
qed

lemma handleSubmit_call:
  assumes "(t, s, rq) \<in> set (calls (handleSubmit gw st))"
  shows "(s = TitleCall \<and> req_tools rq = [])
       \<or> (model st = IMAGE_MODEL \<and> s = BypassCall \<and> req_tools rq = [])
       \<or> (model st \<noteq> IMAGE_MODEL \<and> s = MemoryCall \<and> req_tools rq = [] \<and> trim (userInput st) \<noteq> [])
       \<or> (model st \<noteq> IMAGE_MODEL \<and> is_stage s
            \<and> req_tools rq = (if isGroundingEnabled st then [GoogleSearch] else []))"
proof (cases "submitted st")
  case False
  with assms show ?thesis by (simp add: handleSubmit_idle idle_def)
next
  case True
  with assms have "(t, s, rq) \<in> set (fst (titleTask gw st))
      \<or> (t, s, rq) \<in> set (t_calls (sendMessage gw st (trim (userInput st))))"
    by (simp add: handleSubmit_calls)
  then show ?thesis
  proof
    assume "(t, s, rq) \<in> set (fst (titleTask gw st))"
    then show ?thesis using titleTask_tools by blast
  next
    assume "(t, s, rq) \<in> set (t_calls (sendMessage gw st (trim (userInput st))))"
    then show ?thesis using sendMessage_call by blast
  qed
qed



lemma bypass_calls:
  assumes "bypass_path st" "userPartsForApi st (trim (userInput st)) = Some ps"
  shows "calls (handleSubmit gw st) = fst (titleTask gw st) @ [(0, BypassCall, bypassRequest st ps)]"
proof -
  have "submitted st" using assms(1) by (simp add: bypass_path_def)
  then show ?thesis
    using sendMessage_bypass[OF assms] by (simp add: handleSubmit_calls bypassTurn_calls)
qed

subsection \<open>Updates of the main path and of the bypass\<close>

lemma main_updates:
  assumes "main_pipeline st" "userPartsForApi st (trim (userInput st)) = Some ps"
  shows "updates (handleSubmit gw st) =
     (0, AppendMessage (userMessage st)) # t_updates (mainTurn gw st ps) @ snd (titleTask gw st)"
proof -
  have "submitted st" using assms(1) by (simp add: main_pipeline_def)
  then show ?thesis using sendMessage_main[OF assms] by (simp add: handleSubmit_updates)
qed

lemma main_settled:
  assumes "main_pipeline st" "userPartsForApi st (trim (userInput st)) = Some ps"
  shows "memorySettled (handleSubmit gw st) = Some (fst (snd (memoryTask gw st)))
       \<and> pipelineSettled (handleSubmit gw st) = Some (p_settled (pipelineTask gw st ps))"
proof -
  have "submitted st" using assms(1) by (simp add: main_pipeline_def)
  then show ?thesis using sendMessage_main[OF assms]
    by (simp add: handleSubmit_settled mainTurn_def Let_def caught_def split: prod.splits sum.splits)
qed

lemma mainTurn_rejected:
  "p_result (pipelineTask gw st ps) = Inl e \<Longrightarrow>
   t_updates (mainTurn gw st ps) =
     [(p_settled (pipelineTask gw st ps),
       AppendMessage (modelMessage [Text (Some (errorMessageText (ErrorObject e)))]))]"
  by (simp add: mainTurn_def Let_def caught_def split: prod.splits)

lemma mainTurn_fulfilled:
  "p_result (pipelineTask gw st ps) = Inr finalResult \<Longrightarrow>
   t_updates (mainTurn gw st ps) =
     map (\<lambda>u. (max (fst (snd (memoryTask gw st))) (p_settled (pipelineTask gw st ps)), u))
       (memoryUpdates (memory st) (snd (snd (memoryTask gw st)))
        @ [AppendMessage (finalMessage finalResult (snd (snd (memoryTask gw st))))])"
  by (simp add: mainTurn_def Let_def split: prod.splits)

lemma views_memoryUpdates:
  "appended_messages (map (\<lambda>u. (t, u)) (memoryUpdates facts nm)) = []
   \<and> added_facts (map (\<lambda>u. (t, u)) (memoryUpdates facts nm)) =
       (case nm of None \<Rightarrow> [] | Some f \<Rightarrow> if f \<noteq> [] \<and> f \<notin> set facts then [f] else [])
   \<and> shared_updates (map (\<lambda>u. (t, u)) (memoryUpdates facts nm)) = map (\<lambda>u. (t, u)) (memoryUpdates facts nm)"
  by (simp add: memoryUpdates_def split: option.splits)


lemma sendMessage_image_facts:
  "model st = IMAGE_MODEL \<Longrightarrow>
   added_facts (t_updates (sendMessage gw st x)) = [] \<and> t_memorySettled (sendMessage gw st x) = None"
  by (simp add: sendMessage_def caught_def bypassTurn_def Let_def
      split: option.splits prod.splits sum.splits)

lemma issue_other_site:
  "s \<noteq> MemoryCall \<Longrightarrow> issue (gw(MemoryCall := g)) t s rq = issue gw t s rq"
  by (simp add: issue_def)

lemma pipelineTask_ignores_memory_call:
  "pipelineTask (gw(MemoryCall := g)) st ps = pipelineTask gw st ps"
  by (simp add: pipelineTask_def multiAgentPromise_def initialStage_def refinementStage_def
      synthesizerStage_def issue_other_site Let_def split_def)

lemma memoryTask_fact_nonempty: "snd (snd (memoryTask gw st)) = Some f \<Longrightarrow> f \<noteq> []"
  by (auto simp add: memoryTask_def memoryPromise_def Let_def
      split: if_splits prod.splits sum.splits option.splits)

subsection \<open>How far the pipeline gets\<close>

lemma multiAgentPromise_stage1_rejected:
  "snd (initialStage gw st conv) = (t1, Inl e) \<Longrightarrow>
   multiAgentPromise gw st h conv ps =
     \<lparr>p_calls = fst (initialStage gw st conv), p_settled = t1, p_result = Inl e,
      p_status = ''Initializing agents...''\<rparr>"
  by (cases "initialStage gw st conv") (simp add: multiAgentPromise_def)


lemma multiAgentPromise_completed:
  "snd (initialStage gw st conv) = (t1, Inr rs) \<Longrightarrow>
   snd (refinementStage gw st h (textForContext ps (attachment st)) (t1 + 1000) (map res_text rs))
     = (t3, Inr rs') \<Longrightarrow>
   multiAgentPromise gw st h conv ps =
     \<lparr>p_calls = fst (initialStage gw st conv)
                @ fst (refinementStage gw st h (textForContext ps (attachment st)) (t1 + 1000)
                        (map res_text rs))
                @ fst (synthesizerStage gw st h (textForContext ps (attachment st)) (t3 + 1000)
                        (map res_text rs')),
      p_settled = fst (snd (synthesizerStage gw st h (textForContext ps (attachment st)) (t3 + 1000)
                        (map res_text rs'))),
      p_result = snd (snd (synthesizerStage gw st h (textForContext ps (attachment st)) (t3 + 1000)
                        (map res_text rs'))),
      p_status = ''Synthesizing final response...''\<rparr>"
  by (cases "initialStage gw st conv";
      cases "refinementStage gw st h (textForContext ps (attachment st)) (t1 + 1000) (map res_text rs)";
      cases "synthesizerStage gw st h (textForContext ps (attachment st)) (t3 + 1000) (map res_text rs')")
     (simp add: multiAgentPromise_def Let_def)

lemma initialStage_sites: "call_sites (fst (initialStage gw st conv)) = map InitialCall [0, 1, 2, 3]"
  by (simp add: initialStage_calls call_sites_def upt_rec)

lemma refinementStage_sites:
  "call_sites (fst (refinementStage gw st h ctx t [a0, a1, a2, a3])) = map RefinementCall [0, 1, 2, 3]"
  by (simp add: refinementStage_calls refinementRequests_four call_sites_def enumerate_eq_zip upt_rec)

lemma initialStage_eval:
  "snd (initialStage gw st conv) =
     promise_all (map (\<lambda>i. issue gw 0 (InitialCall i) (agentRequest st conv INITIAL_SYSTEM_INSTRUCTION))
       [0, 1, 2, 3])"
  by (simp add: initialStage_def Let_def upt_rec eval_nat_numeral)

lemma refinementStage_eval:
  "snd (refinementStage gw st h ctx t [a0, a1, a2, a3]) =
     promise_all (map (\<lambda>(i, rq). issue gw t (RefinementCall i) rq)
       (zip [0, 1, 2, 3] (refinementRequests st h ctx [a0, a1, a2, a3])))"
  by (simp add: refinementStage_def Let_def enumerate_eq_zip upt_rec refinementRequests_four eval_nat_numeral)

lemma synthesizerStage_eval:
  "snd (synthesizerStage gw st h ctx t ans) =
     issue gw t SynthesizerCall
       (agentRequest st (h @ [internalTurn ctx (synthesizerContext ans)]) SYNTHESIZER_SYSTEM_INSTRUCTION)"
  by (simp add: synthesizerStage_def Let_def)



subsection \<open>Rejections of \<^verbatim>\<open>Promise.all\<close>\<close>














subsection \<open>The memory context\<close>

lemma join_bullets: "fs \<noteq> [] \<Longrightarrow> sep @ join sep fs = concat (map (\<lambda>f. sep @ f) fs)"
  by (induction sep fs rule: join.induct) simp_all

lemma memoryContext_bullets:
  "memoryContext facts =
     (if facts = [] then []
      else ''--- Start User Memory ---\<newline>The user has provided the following information about themselves. Use this to personalize your response:''
           @ concat (map (\<lambda>f. ''\<newline>- '' @ f) facts)
           @ ''\<newline>--- End User Memory ---\<newline>\<newline>'')"
proof (cases "facts = []")
  case True
  then show ?thesis by (simp add: memoryContext_def)
next
  case False
  have j: "''\<newline>- '' @ join ''\<newline>- '' facts = concat (map (\<lambda>f. ''\<newline>- '' @ f) facts)"
    by (rule join_bullets[OF False])
  have "memoryContext facts =
      ''--- Start User Memory ---\<newline>The user has provided the following information about themselves. Use this to personalize your response:''
      @ (''\<newline>- '' @ join ''\<newline>- '' facts) @ ''\<newline>--- End User Memory ---\<newline>\<newline>''"
    using False by (simp add: memoryContext_def)
  then have "memoryContext facts =
      ''--- Start User Memory ---\<newline>The user has provided the following information about themselves. Use this to personalize your response:''
      @ concat (map (\<lambda>f. ''\<newline>- '' @ f) facts) @ ''\<newline>--- End User Memory ---\<newline>\<newline>''"
    by (simp only: j)
  then show ?thesis using False by (simp only: if_False)
qed

subsection \<open>Runs of the example submissions\<close>

lemma example_trim: "trim (userInput example_state) = ''Explain photosynthesis''"
  by (simp add: example_state_def trim_def ws_prefix_def white_space_def)

lemma example_no_title: "titleTask gw example_state = ([], [])"
  by (simp add: titleTask_def isFirstMessage_def activeChat_def example_state_def example_chat_def)

lemma trim_fact: "trim '' Likes tea'' = ''Likes tea''"
  by (simp add: trim_def ws_prefix_def white_space_def)

lemma example_memoryTask:
  "memoryTask example_gateway example_state =
     ([(0, MemoryCall, memoryRequest (mainChatHistory example_state) (userInput example_state))],
      5, Some ''Likes tea'')"
  by (simp add: memoryTask_def memoryPromise_def example_trim issue_def Let_def answer_def
      trim_fact)

lemma example_refinementStage:
  "snd (refinementStage example_gateway st h ctx t [a0, a1, a2, a3])
     = (t + 20, Inr [answer ''r0'', answer ''r1'', answer ''r2'', answer ''r3''])"
  by (simp add: refinementStage_eval refinementRequests_four promise_all_def issue_def)

lemma example_synthesizerStage:
  "snd (synthesizerStage example_gateway st h ctx t ans) = (t + 30, Inr (answer ''final''))"
  by (simp add: synthesizerStage_eval issue_def)

lemma example_initialStage_any:
  "snd (initialStage example_gateway st conv)
     = (10, Inr [answer ''a0'', answer ''a1'', answer ''a2'', answer ''a3''])"
  by (simp add: initialStage_eval promise_all_def issue_def)

lemma example_pipelineTask:
  "p_result (pipelineTask example_gateway st ps) = Inr (answer ''final'')
   \<and> p_settled (pipelineTask example_gateway st ps) = 2060
   \<and> call_sites (p_calls (pipelineTask example_gateway st ps)) =
       [InitialCall 0, InitialCall 1, InitialCall 2, InitialCall 3,
        RefinementCall 0, RefinementCall 1, RefinementCall 2, RefinementCall 3, SynthesizerCall]"
proof -
  have r: "snd (refinementStage example_gateway st (mainChatHistory st) (textForContext ps (attachment st))
                 (10 + 1000) (map res_text [answer ''a0'', answer ''a1'', answer ''a2'', answer ''a3'']))
     = (1030, Inr [answer ''r0'', answer ''r1'', answer ''r2'', answer ''r3''])"
    by (simp add: example_refinementStage)
  show ?thesis
    unfolding pipelineTask_def multiAgentPromise_completed[OF example_initialStage_any r]
    by (simp add: example_synthesizerStage call_sites_append initialStage_sites
        refinementStage_sites synthesizerStage_calls)
qed


lemma example_tools:
  "map (\<lambda>(t, s, rq). (s, req_tools rq)) (p_calls (pipelineTask example_gateway example_state ps)) =
     [(InitialCall 0, [GoogleSearch]), (InitialCall 1, [GoogleSearch]),
      (InitialCall 2, [GoogleSearch]), (InitialCall 3, [GoogleSearch]),
      (RefinementCall 0, [GoogleSearch]), (RefinementCall 1, [GoogleSearch]),
      (RefinementCall 2, [GoogleSearch]), (RefinementCall 3, [GoogleSearch]),
      (SynthesizerCall, [GoogleSearch])]"
proof -
  have r: "snd (refinementStage example_gateway example_state (mainChatHistory example_state)
                 (textForContext ps (attachment example_state))
                 (10 + 1000) (map res_text [answer ''a0'', answer ''a1'', answer ''a2'', answer ''a3'']))
     = (1030, Inr [answer ''r0'', answer ''r1'', answer ''r2'', answer ''r3''])"
    by (simp add: example_refinementStage)
  have g: "isGroundingEnabled example_state" by (simp add: example_state_def)
  show ?thesis
    unfolding pipelineTask_def multiAgentPromise_completed[OF example_initialStage_any r]
    by (simp add: initialStage_calls refinementStage_calls refinementRequests_four
        synthesizerStage_def Let_def agentRequest_def g enumerate_eq_zip upt_rec answer_def)
qed





lemma includes_quota: "str_includes ''429 RESOURCE_EXHAUSTED'' ''RESOURCE_EXHAUSTED''"
  by simp

lemma early_pipelineTask:
  "p_result (pipelineTask early_failure_gateway st ps) = Inl ''503 overloaded''
   \<and> p_settled (pipelineTask early_failure_gateway st ps) = 3"
proof -
  have i: "snd (initialStage early_failure_gateway st (conversationForAgents st ps))
      = (3, Inl ''503 overloaded'')"
    by (simp add: initialStage_eval promise_all_def issue_def early_failure_gateway_def)
  show ?thesis
    unfolding pipelineTask_def multiAgentPromise_stage1_rejected[OF i] by simp
qed

lemma early_memoryTask: "fst (snd (memoryTask early_failure_gateway example_state)) = 5"
  by (simp add: memoryTask_def memoryPromise_def example_trim issue_def Let_def
      early_failure_gateway_def)

lemma error_text_503:
  "errorMessageText (ErrorObject ''503 overloaded'') = ''Terjadi kesalahan: 503 overloaded''"
  by (simp add: errorMessageText_def)


lemma memory_failure_pipelineTask:
  "pipelineTask memory_failure_gateway st ps = pipelineTask example_gateway st ps"
  unfolding memory_failure_gateway_def by (rule pipelineTask_ignores_memory_call)

lemma image_bypass_path: "bypass_path image_state"
  by (simp add: bypass_path_def submitted_def truthy_def finalApiKey_def userPartsForApi_def
      image_state_def example_state_def trim_def ws_prefix_def white_space_def)

lemma image_trim: "trim (userInput image_state) = ''Explain photosynthesis''"
  by (simp add: image_state_def example_state_def trim_def ws_prefix_def white_space_def)

lemma image_userParts:
  "userPartsForApi image_state (trim (userInput image_state))
     = Some [Text (Some ''Explain photosynthesis'')]"
  by (simp add: userPartsForApi_def image_trim) (simp add: image_state_def example_state_def)

lemma image_no_title: "titleTask gw image_state = ([], [])"
  by (simp add: titleTask_def isFirstMessage_def activeChat_def image_state_def example_state_def
      example_chat_def)


lemma picture_trim: "trim (userInput picture_state) = []"
  by (simp add: picture_state_def trim_def ws_prefix_def white_space_def)

lemma picture_main_pipeline: "main_pipeline picture_state"
  by (simp add: main_pipeline_def submitted_def truthy_def finalApiKey_def userPartsForApi_def
      fileToGenerativePart_def IMAGE_MODEL_def picture_state_def example_state_def
      example_picture_def trim_def ws_prefix_def white_space_def)

lemma picture_userParts:
  "userPartsForApi picture_state (trim (userInput picture_state))
     = Some [InlineData ''image/png'' ''iVBOR'']"
  by (simp add: userPartsForApi_def picture_trim)
     (simp add: picture_state_def fileToGenerativePart_def example_picture_def)

lemma picture_no_title: "titleTask gw picture_state = ([], [])"
  by (simp add: titleTask_def isFirstMessage_def activeChat_def picture_state_def example_state_def
      example_chat_def)

lemma fresh_main_pipeline: "main_pipeline fresh_state"
  by (simp add: main_pipeline_def submitted_def truthy_def finalApiKey_def userPartsForApi_def
      IMAGE_MODEL_def fresh_state_def example_state_def trim_def ws_prefix_def white_space_def)

lemma fresh_trim: "trim (userInput fresh_state) = ''Explain photosynthesis''"
  by (simp add: fresh_state_def example_state_def trim_def ws_prefix_def white_space_def)

lemma fresh_userParts:
  "userPartsForApi fresh_state (trim (userInput fresh_state))
     = Some [Text (Some ''Explain photosynthesis'')]"
  by (simp add: userPartsForApi_def fresh_trim) (simp add: fresh_state_def example_state_def)

lemma fresh_memoryTask:
  "snd (memoryTask example_gateway fresh_state) = (5, Some ''Likes tea'')"
  by (simp add: memoryTask_def memoryPromise_def fresh_trim issue_def Let_def answer_def trim_fact)

subsection \<open>White space at the ends of a string\<close>

lemma ws_prefix_code: "w \<in> set white_space \<Longrightarrow> ws_prefix white_space (w @ s) = length w"
  unfolding white_space_def ws_prefix_def by (elim set_ConsD[elim_format] disjE; simp)

lemma white_space_nonempty: "w \<in> set white_space \<Longrightarrow> w \<noteq> []"
  unfolding white_space_def by (elim set_ConsD[elim_format] disjE; simp)

lemma trimStart_code:
  assumes "w \<in> set white_space"
  shows "trimStart white_space (w @ s) = trimStart white_space s"
proof -
  obtain c w' where w: "w = c # w'" using white_space_nonempty[OF assms] by (cases w) auto
  have "ws_prefix white_space (c # w' @ s) = Suc (length w')"
    using ws_prefix_code[OF assms, of s] by (simp add: w)
  then show ?thesis by (simp add: w)
qed

lemma trimStart_white_space_only:
  "set ws \<subseteq> set white_space \<Longrightarrow> trimStart white_space (concat ws) = []"
  by (induction ws) (simp_all add: trimStart_code)

lemma trim_white_space_only: "set ws \<subseteq> set white_space \<Longrightarrow> trim (concat ws) = []"
  by (simp add: trim_def trimStart_white_space_only)

lemma trim_empty: "trim [] = []"
  by (simp add: trim_def)

subsection \<open>The chats of the final state\<close>



subsection \<open>The refinement calls and a rejected stage call\<close>

lemma refinement_calls_by_template:
  assumes "main_pipeline st"
    and "userPartsForApi st (trim (userInput st)) = Some ps"
    and "snd (initialStage gw st (conversationForAgents st ps)) = (t1, Inr rs)"
  shows "\<exists>a0 a1 a2 a3. map res_text rs = [a0, a1, a2, a3] \<and>
     requests_at is_refinement (calls (handleSubmit gw st)) =
       map (\<lambda>(i, p). (RefinementCall i,
              agentRequest st
                (mainChatHistory st @ [internalTurn (textForContext ps (attachment st)) p])
                REFINEMENT_SYSTEM_INSTRUCTION))
         [(0, refinementTemplate a0 a1 a2 a3), (1, refinementTemplate a1 a0 a2 a3),
          (2, refinementTemplate a2 a0 a1 a3), (3, refinementTemplate a3 a0 a1 a2)]"
proof -
  have "length (map res_text rs) = 4"
    using initialStage_length[OF assms(3)] by simp
  then obtain a0 a1 a2 a3 where ans: "map res_text rs = [a0, a1, a2, a3]"
    using length4[of "map res_text rs"] by auto
  obtain tail where tail: "set (call_sites tail) \<subseteq> {SynthesizerCall}"
    and pc: "p_calls (pipelineTask gw st ps) =
      fst (initialStage gw st (conversationForAgents st ps))
      @ fst (refinementStage gw st (mainChatHistory st) (textForContext ps (attachment st))
               (t1 + 1000) (map res_text rs))
      @ tail"
    using multiAgentPromise_calls_fulfilled[OF assms(3)] unfolding pipelineTask_def by blast
  have t: "requests_at is_refinement (fst (titleTask gw st)) = []"
    using titleTask_sites[of gw st] by (intro requests_at_none) (auto simp add: is_refinement_def)
  have m: "requests_at is_refinement (fst (memoryTask gw st)) = []"
    by (simp add: memoryTask_def memoryPromise_def requests_at_def is_refinement_def Let_def
        split: prod.splits sum.splits)
  have i: "requests_at is_refinement (fst (initialStage gw st (conversationForAgents st ps))) = []"
    by (simp add: initialStage_calls requests_at_def is_refinement_def)
  have s: "requests_at is_refinement tail = []"
    using tail by (intro requests_at_none) (auto simp add: is_refinement_def)
  have r: "requests_at is_refinement
      (fst (refinementStage gw st (mainChatHistory st) (textForContext ps (attachment st))
              (t1 + 1000) [a0, a1, a2, a3])) =
       map (\<lambda>(i, p). (RefinementCall i,
              agentRequest st
                (mainChatHistory st @ [internalTurn (textForContext ps (attachment st)) p])
                REFINEMENT_SYSTEM_INSTRUCTION))
         [(0, refinementTemplate a0 a1 a2 a3), (1, refinementTemplate a1 a0 a2 a3),
          (2, refinementTemplate a2 a0 a1 a3), (3, refinementTemplate a3 a0 a1 a2)]"
    by (simp add: refinementStage_calls refinementRequests_four requests_at_def is_refinement_def
        enumerate_eq_zip upt_rec)
  show ?thesis
    using ans t m i s r by (simp add: main_calls[OF assms(1,2)] pc requests_at_append)
qed


section \<open>The claims\<close>

text \<open>
  C1. When Stage 1 of a main-pipeline turn is fulfilled with the answers \<open>a0\<close>, \<open>a1\<close>,
  \<open>a2\<close>, \<open>a3\<close>, the handler issues four refinement calls, one per agent in order. The
  last turn of the call of agent \<open>i\<close> is one user text: the context of the user's parts, the
  marker of the internal context, then the sentence that gives \<open>a\<^sub>i\<close> as the agent's own
  initial response and, numbered 1 to 3, exactly the three answers at the other indices in
  their original order (an undefined answer reads \<^verbatim>\<open>undefined\<close>). The answer \<open>a\<^sub>i\<close> is
  not among the numbered ones.
\<close>

theorem refinement_prompts_name_the_other_three:
  assumes "main_pipeline st"
    and "userPartsForApi st (trim (userInput st)) = Some ps"
    and "snd (initialStage gw st (conversationForAgents st ps)) = (t1, Inr rs)"
  shows \<open>\<exists>a0 a1 a2 a3. map res_text rs = [a0, a1, a2, a3] \<and>
     requests_at is_refinement (calls (handleSubmit gw st)) =
       map (\<lambda>(i, own, other1, other2, other3).
              (RefinementCall i,
               \<lparr>req_model = model st,
                req_contents =
                  mainChatHistory st
                  @ [\<lparr>c_role = User,
                      c_parts =
                        [Text (Some
                           (textForContext ps (attachment st)
                            @ ''\<newline>\<newline>---INTERNAL CONTEXT---\<newline>''
                            @ ''My initial response was: "''
                            @ (case own of None \<Rightarrow> ''undefined'' | Some s \<Rightarrow> s)
                            @ ''". The other agents responded with: 1. "''
                            @ (case other1 of None \<Rightarrow> ''undefined'' | Some s \<Rightarrow> s)
                            @ ''" 2. "''
                            @ (case other2 of None \<Rightarrow> ''undefined'' | Some s \<Rightarrow> s)
                            @ ''" 3. "''
                            @ (case other3 of None \<Rightarrow> ''undefined'' | Some s \<Rightarrow> s)
                            @ ''". Based on this context, critically re-evaluate and provide a new, improved response to the original query.''))]\<rparr>],
                req_systemInstruction =
                  Some (memoryContext (memory st) @ REFINEMENT_SYSTEM_INSTRUCTION),
                req_tools = (if isGroundingEnabled st then [GoogleSearch] else []),
                req_responseModalities = []\<rparr>))
         [(0, a0, a1, a2, a3), (1, a1, a0, a2, a3), (2, a2, a0, a1, a3), (3, a3, a0, a1, a2)]\<close>
proof -
  have eq: \<open>\<And>a0 a1 a2 a3.
       map (\<lambda>(i, p). (RefinementCall i,
              agentRequest st
                (mainChatHistory st @ [internalTurn (textForContext ps (attachment st)) p])
                REFINEMENT_SYSTEM_INSTRUCTION))
         [(0, refinementTemplate a0 a1 a2 a3), (1, refinementTemplate a1 a0 a2 a3),
          (2, refinementTemplate a2 a0 a1 a3), (3, refinementTemplate a3 a0 a1 a2)] =
       map (\<lambda>(i, own, other1, other2, other3).
              (RefinementCall i,
               \<lparr>req_model = model st,
                req_contents =
                  mainChatHistory st
                  @ [\<lparr>c_role = User,
                      c_parts =
                        [Text (Some
                           (textForContext ps (attachment st)
                            @ ''\<newline>\<newline>---INTERNAL CONTEXT---\<newline>''
                            @ ''My initial response was: "''
                            @ (case own of None \<Rightarrow> ''undefined'' | Some s \<Rightarrow> s)
                            @ ''". The other agents responded with: 1. "''
                            @ (case other1 of None \<Rightarrow> ''undefined'' | Some s \<Rightarrow> s)
                            @ ''" 2. "''
                            @ (case other2 of None \<Rightarrow> ''undefined'' | Some s \<Rightarrow> s)
                            @ ''" 3. "''
                            @ (case other3 of None \<Rightarrow> ''undefined'' | Some s \<Rightarrow> s)
                            @ ''". Based on this context, critically re-evaluate and provide a new, improved response to the original query.''))]\<rparr>],
                req_systemInstruction =
                  Some (memoryContext (memory st) @ REFINEMENT_SYSTEM_INSTRUCTION),
                req_tools = (if isGroundingEnabled st then [GoogleSearch] else []),
                req_responseModalities = []\<rparr>))
         [(0, a0, a1, a2, a3), (1, a1, a0, a2, a3), (2, a2, a0, a1, a3), (3, a3, a0, a1, a2)]\<close>
    unfolding agentRequest_def internalTurn_def refinementTemplate_def js_str_def
    by (simp only: list.map prod.case append_assoc)
  from refinement_calls_by_template[OF assms]
  obtain a0 a1 a2 a3 where ans: "map res_text rs = [a0, a1, a2, a3]"
    and rc: "requests_at is_refinement (calls (handleSubmit gw st)) =
       map (\<lambda>(i, p). (RefinementCall i,
              agentRequest st
                (mainChatHistory st @ [internalTurn (textForContext ps (attachment st)) p])
                REFINEMENT_SYSTEM_INSTRUCTION))
         [(0, refinementTemplate a0 a1 a2 a3), (1, refinementTemplate a1 a0 a2 a3),
          (2, refinementTemplate a2 a0 a1 a3), (3, refinementTemplate a3 a0 a1 a2)]"
    by (elim exE conjE)
  show ?thesis
    by (intro exI[of _ a0] exI[of _ a1] exI[of _ a2] exI[of _ a3] conjI)
       (rule ans, simp only: rc eq)
qed

theorem refinement_prompts_name_the_other_three_witness:
  \<open>main_pipeline example_state
   \<and> userPartsForApi example_state (trim (userInput example_state))
       = Some [Text (Some ''Explain photosynthesis'')]
   \<and> snd (initialStage example_gateway example_state
            (conversationForAgents example_state [Text (Some ''Explain photosynthesis'')]))
       = (10, Inr [answer ''a0'', answer ''a1'', answer ''a2'', answer ''a3''])
   \<and> map (\<lambda>(s, rq). (s, butlast (req_contents rq), c_parts (last (req_contents rq))))
         (requests_at is_refinement (calls (handleSubmit example_gateway example_state))) =
       [(RefinementCall 0, example_history,
         [Text (Some ''Explain photosynthesis\<newline>\<newline>---INTERNAL CONTEXT---\<newline>My initial response was: "a0". The other agents responded with: 1. "a1" 2. "a2" 3. "a3". Based on this context, critically re-evaluate and provide a new, improved response to the original query.'')]),
        (RefinementCall 1, example_history,
         [Text (Some ''Explain photosynthesis\<newline>\<newline>---INTERNAL CONTEXT---\<newline>My initial response was: "a1". The other agents responded with: 1. "a0" 2. "a2" 3. "a3". Based on this context, critically re-evaluate and provide a new, improved response to the original query.'')]),
        (RefinementCall 2, example_history,
         [Text (Some ''Explain photosynthesis\<newline>\<newline>---INTERNAL CONTEXT---\<newline>My initial response was: "a2". The other agents responded with: 1. "a0" 2. "a1" 3. "a3". Based on this context, critically re-evaluate and provide a new, improved response to the original query.'')]),
        (RefinementCall 3, example_history,
         [Text (Some ''Explain photosynthesis\<newline>\<newline>---INTERNAL CONTEXT---\<newline>My initial response was: "a3". The other agents responded with: 1. "a0" 2. "a1" 3. "a2". Based on this context, critically re-evaluate and provide a new, improved response to the original query.'')])]\<close>
  using refinement_prompts_name_the_other_three
          [OF example_main_pipeline example_userParts example_initialStage]
        example_main_pipeline example_userParts example_initialStage
  by (auto simp add: example_mainChatHistory example_textForContext answer_def)



text \<open>
  C3 as stated fails: with the image model selected and a text in the input, the handler
  calls the Gateway once, at the bypass, and never for the memory task.
\<close>

theorem bypass_runs_memory_task_counterexample:
  "bypass_path image_state
   \<and> trim (userInput image_state) = ''Explain photosynthesis''
   \<and> call_sites (calls (handleSubmit example_gateway image_state)) = [BypassCall]"
  by (simp add: image_bypass_path image_trim bypass_calls[OF image_bypass_path image_userParts]
      image_no_title call_sites_def)

text \<open>
  C3, amended. With the image model selected, no submission runs the memory extraction task:
  no memory call is issued, no memory task settles, and the memory set is left as it was.
\<close>

theorem bypass_runs_no_memory_task:
  assumes "model st = IMAGE_MODEL"
  shows "MemoryCall \<notin> set (call_sites (calls (handleSubmit gw st)))
       \<and> memorySettled (handleSubmit gw st) = None
       \<and> added_facts (updates (handleSubmit gw st)) = []
       \<and> memory (final (handleSubmit gw st)) = memory st"
proof -
  have c: "MemoryCall \<notin> set (call_sites (calls (handleSubmit gw st)))"
  proof
    assume "MemoryCall \<in> set (call_sites (calls (handleSubmit gw st)))"
    then obtain t rq where "(t, MemoryCall, rq) \<in> set (calls (handleSubmit gw st))"
      by (auto simp add: call_sites_def)
    from handleSubmit_call[OF this] assms show False by auto
  qed
  have u: "memorySettled (handleSubmit gw st) = None \<and> added_facts (updates (handleSubmit gw st)) = []"
  proof (cases "submitted st")
    case False
    then show ?thesis by (simp add: handleSubmit_idle idle_def)
  next
    case True
    then show ?thesis
      using sendMessage_image_facts[OF assms, of gw "trim (userInput st)"]
      by (simp add: handleSubmit_updates handleSubmit_settled added_facts_append titleTask_views)
  qed
  show ?thesis using c u by (simp add: handleSubmit_memory)
qed

theorem bypass_runs_no_memory_task_witness:
  "model image_state = IMAGE_MODEL
   \<and> trim (userInput image_state) = ''Explain photosynthesis''
   \<and> MemoryCall \<notin> set (call_sites (calls (handleSubmit example_gateway image_state)))
   \<and> memorySettled (handleSubmit example_gateway image_state) = None
   \<and> added_facts (updates (handleSubmit example_gateway image_state)) = []
   \<and> memory (final (handleSubmit example_gateway image_state)) = [''Likes tea'']"
proof -
  have m: "model image_state = IMAGE_MODEL" by (simp add: image_state_def)
  have f: "memory image_state = [''Likes tea'']" by (simp add: image_state_def example_state_def)
  show ?thesis
    using bypass_runs_no_memory_task[OF m, of example_gateway] m f image_trim by simp
qed

text \<open>
  C4. On the main pipeline, Stage 1 issues exactly four calls, at the agents 0 to 3, all with
  one and the same request: its turns are the conversation for the agents, and its system
  instruction is the initial instruction, preceded, exactly when the memory set is not empty,
  by the block that starts with the start marker and the label, lists each fact on a line
  of its own after a dash, and ends with the end marker and an empty line.
\<close>

theorem initial_stage_issues_four_identical_calls:
  assumes "main_pipeline st"
    and "userPartsForApi st (trim (userInput st)) = Some ps"
  shows "\<exists>rq. requests_at is_initial (calls (handleSubmit gw st)) =
           [(InitialCall 0, rq), (InitialCall 1, rq), (InitialCall 2, rq), (InitialCall 3, rq)]
       \<and> req_contents rq = conversationForAgents st ps
       \<and> req_systemInstruction rq =
           Some ((if memory st = [] then []
                  else ''--- Start User Memory ---\<newline>The user has provided the following information about themselves. Use this to personalize your response:''
                       @ concat (map (\<lambda>f. ''\<newline>- '' @ f) (memory st))
                       @ ''\<newline>--- End User Memory ---\<newline>\<newline>'')
                 @ INITIAL_SYSTEM_INSTRUCTION)"
proof -
  have t: "requests_at is_initial (fst (titleTask gw st)) = []"
    using titleTask_sites[of gw st] by (intro requests_at_none) (auto simp add: is_initial_def)
  have m: "requests_at is_initial (fst (memoryTask gw st)) = []"
    by (intro requests_at_none) (auto simp add: is_initial_def call_sites_def dest!: memoryTask_tools)
  have p: "requests_at is_initial (p_calls (pipelineTask gw st ps)) =
      requests_at is_initial (fst (initialStage gw st (conversationForAgents st ps)))"
  proof -
    have r: "\<And>ctx t ans. requests_at is_initial (fst (refinementStage gw st (mainChatHistory st) ctx t ans)) = []"
      by (intro requests_at_none) (auto simp add: refinementStage_calls call_sites_def is_initial_def)
    have s: "\<And>ctx t ans. requests_at is_initial (fst (synthesizerStage gw st (mainChatHistory st) ctx t ans)) = []"
      by (simp add: synthesizerStage_def Let_def requests_at_def is_initial_def)
    show ?thesis
      unfolding pipelineTask_def multiAgentPromise_def
      by (auto simp add: Let_def requests_at_append split: prod.splits sum.splits)
         (metis fst_conv r s)+
  qed
  have c: "requests_at is_initial (calls (handleSubmit gw st)) =
      requests_at is_initial (fst (initialStage gw st (conversationForAgents st ps)))"
    by (simp add: main_calls[OF assms] requests_at_append t m p)
  have i: "requests_at is_initial (fst (initialStage gw st (conversationForAgents st ps))) =
      map (\<lambda>i. (InitialCall i, agentRequest st (conversationForAgents st ps) INITIAL_SYSTEM_INSTRUCTION))
        [0, 1, 2, 3]"
    by (simp add: initialStage_calls requests_at_def is_initial_def upt_rec)
  have q: "req_systemInstruction (agentRequest st (conversationForAgents st ps) INITIAL_SYSTEM_INSTRUCTION)
      = Some (memoryContext (memory st) @ INITIAL_SYSTEM_INSTRUCTION)
    \<and> req_contents (agentRequest st (conversationForAgents st ps) INITIAL_SYSTEM_INSTRUCTION)
      = conversationForAgents st ps"
    by (simp add: agentRequest_def)
  show ?thesis
    by (intro exI[of _ "agentRequest st (conversationForAgents st ps) INITIAL_SYSTEM_INSTRUCTION"])
       (simp only: c i q memoryContext_bullets[of "memory st"] list.map prod.case simp_thms)
qed

theorem initial_stage_issues_four_identical_calls_witness:
  "main_pipeline example_state
   \<and> userPartsForApi example_state (trim (userInput example_state))
       = Some [Text (Some ''Explain photosynthesis'')]
   \<and> (\<exists>rq. requests_at is_initial (calls (handleSubmit example_gateway example_state)) =
           [(InitialCall 0, rq), (InitialCall 1, rq), (InitialCall 2, rq), (InitialCall 3, rq)]
        \<and> req_contents rq =
            example_history @ [\<lparr>c_role = User, c_parts = [Text (Some ''Explain photosynthesis'')]\<rparr>]
        \<and> req_systemInstruction rq =
            Some (''--- Start User Memory ---\<newline>The user has provided the following information about themselves. Use this to personalize your response:\<newline>- Likes tea\<newline>--- End User Memory ---\<newline>\<newline>''
                  @ INITIAL_SYSTEM_INSTRUCTION))"
proof -
  have m: "memory example_state = [''Likes tea'']" by (simp add: example_state_def)
  show ?thesis
    using initial_stage_issues_four_identical_calls
            [OF example_main_pipeline example_userParts, of example_gateway]
          example_main_pipeline example_userParts
    by (simp add: m conversationForAgents_def example_mainChatHistory)
qed

text \<open>
  C5. In every submission: when the model is not the image model and grounding is enabled,
  every call of Stage 1, 2 and 3 requests the search tool; and when the model is the image
  model, no call of the submission requests it, whatever the grounding flag says.
\<close>

theorem grounding_follows_flag_and_model:
  "(model st \<noteq> IMAGE_MODEL \<and> isGroundingEnabled st \<longrightarrow>
      (\<forall>(t, s, rq) \<in> set (calls (handleSubmit gw st)). is_stage s \<longrightarrow> GoogleSearch \<in> set (req_tools rq)))
   \<and> (model st = IMAGE_MODEL \<longrightarrow>
      (\<forall>(t, s, rq) \<in> set (calls (handleSubmit gw st)). GoogleSearch \<notin> set (req_tools rq)))"
proof (intro conjI impI ballI)
  fix c assume a: "model st \<noteq> IMAGE_MODEL \<and> isGroundingEnabled st" and c: "c \<in> set (calls (handleSubmit gw st))"
  obtain t s rq where [simp]: "c = (t, s, rq)" by (cases c) auto
  from handleSubmit_call[of t s rq gw st] c a
  show "case c of (t, s, rq) \<Rightarrow> is_stage s \<longrightarrow> GoogleSearch \<in> set (req_tools rq)"
    by (auto simp add: is_stage_def is_initial_def is_refinement_def)
next
  fix c assume a: "model st = IMAGE_MODEL" and c: "c \<in> set (calls (handleSubmit gw st))"
  obtain t s rq where [simp]: "c = (t, s, rq)" by (cases c) auto
  from handleSubmit_call[of t s rq gw st] c a
  show "case c of (t, s, rq) \<Rightarrow> GoogleSearch \<notin> set (req_tools rq)"
    by auto
qed

theorem grounding_follows_flag_and_model_witness:
  "model example_state \<noteq> IMAGE_MODEL \<and> isGroundingEnabled example_state
   \<and> map (\<lambda>(t, s, rq). (s, req_tools rq)) (calls (handleSubmit example_gateway example_state)) =
       [(MemoryCall, []),
        (InitialCall 0, [GoogleSearch]), (InitialCall 1, [GoogleSearch]),
        (InitialCall 2, [GoogleSearch]), (InitialCall 3, [GoogleSearch]),
        (RefinementCall 0, [GoogleSearch]), (RefinementCall 1, [GoogleSearch]),
        (RefinementCall 2, [GoogleSearch]), (RefinementCall 3, [GoogleSearch]),
        (SynthesizerCall, [GoogleSearch])]
   \<and> model image_state = IMAGE_MODEL \<and> isGroundingEnabled image_state
   \<and> map (\<lambda>(t, s, rq). (s, req_tools rq)) (calls (handleSubmit example_gateway image_state)) =
       [(BypassCall, [])]"
proof -
  have a: "model example_state \<noteq> IMAGE_MODEL \<and> isGroundingEnabled example_state"
    by (simp add: example_state_def IMAGE_MODEL_def)
  have b: "model image_state = IMAGE_MODEL \<and> isGroundingEnabled image_state"
    by (simp add: image_state_def example_state_def)
  show ?thesis
    using grounding_follows_flag_and_model[of example_state example_gateway]
          grounding_follows_flag_and_model[of image_state example_gateway] a b
    by (simp add: main_calls[OF example_main_pipeline example_userParts] example_no_title
        example_memoryTask example_tools memoryRequest_def
        bypass_calls[OF image_bypass_path image_userParts] image_no_title bypassRequest_def)
qed

text \<open>
  C6 as stated fails on the failure path: when an agent of Stage 1 is rejected after 3
  milliseconds while the memory call takes 5, the error message is appended at time 3,
  before the memory task has settled.
\<close>

theorem updates_wait_for_both_counterexample:
  "main_pipeline example_state
   \<and> memorySettled (handleSubmit early_failure_gateway example_state) = Some 5
   \<and> pipelineSettled (handleSubmit early_failure_gateway example_state) = Some 3
   \<and> shared_updates (updates (handleSubmit early_failure_gateway example_state)) =
       [(0, AppendMessage (userMessage example_state)),
        (3, AppendMessage (modelMessage [Text (Some ''Terjadi kesalahan: 503 overloaded'')]))]"
  using early_pipelineTask[of example_state "[Text (Some ''Explain photosynthesis'')]"]
  by (simp add: example_main_pipeline main_settled[OF example_main_pipeline example_userParts]
      main_updates[OF example_main_pipeline example_userParts] mainTurn_rejected
      early_memoryTask example_no_title error_text_503)

text \<open>
  C6, amended. On the main pipeline both tasks settle, and apart from the user's own message,
  appended at submission, the messages and the memory set are updated as follows. When the
  pipeline is fulfilled, the new fact (if one is accepted) and the assistant message are
  applied together at the time the later of the two tasks settles, and nothing else is.
  When the pipeline is rejected, the error message alone is appended, at the time the
  pipeline is rejected.
\<close>

theorem updates_wait_for_both_only_on_success:
  assumes "main_pipeline st"
    and "userPartsForApi st (trim (userInput st)) = Some ps"
  shows "memorySettled (handleSubmit gw st) = Some (fst (snd (memoryTask gw st)))
       \<and> pipelineSettled (handleSubmit gw st) = Some (p_settled (pipelineTask gw st ps))
       \<and> shared_updates (updates (handleSubmit gw st)) =
           (0, AppendMessage (userMessage st))
           # (case p_result (pipelineTask gw st ps) of
                Inr finalResult \<Rightarrow>
                  map (\<lambda>u. (max (fst (snd (memoryTask gw st))) (p_settled (pipelineTask gw st ps)), u))
                    (memoryUpdates (memory st) (snd (snd (memoryTask gw st)))
                     @ [AppendMessage (finalMessage finalResult (snd (snd (memoryTask gw st))))])
              | Inl e \<Rightarrow>
                  [(p_settled (pipelineTask gw st ps),
                    AppendMessage (modelMessage [Text (Some (errorMessageText (ErrorObject e)))]))])"
proof (cases "p_result (pipelineTask gw st ps)")
  case (Inl e)
  then show ?thesis
    by (simp add: main_settled[OF assms] main_updates[OF assms] mainTurn_rejected[OF Inl]
        shared_updates_append titleTask_shared)
next
  case (Inr finalResult)
  then show ?thesis
    using views_memoryUpdates
    by (simp add: main_settled[OF assms] main_updates[OF assms] mainTurn_fulfilled[OF Inr]
        shared_updates_append titleTask_shared)
qed

theorem updates_wait_for_both_only_on_success_witness:
  "main_pipeline fresh_state
   \<and> userPartsForApi fresh_state (trim (userInput fresh_state))
       = Some [Text (Some ''Explain photosynthesis'')]
   \<and> memorySettled (handleSubmit example_gateway fresh_state) = Some 5
   \<and> pipelineSettled (handleSubmit example_gateway fresh_state) = Some 2060
   \<and> shared_updates (updates (handleSubmit example_gateway fresh_state)) =
       [(0, AppendMessage (userMessage fresh_state)),
        (2060, AddMemory ''Likes tea''),
        (2060, AppendMessage (finalMessage (answer ''final'') (Some ''Likes tea'')))]
   \<and> memorySettled (handleSubmit early_failure_gateway fresh_state) = Some 5
   \<and> pipelineSettled (handleSubmit early_failure_gateway fresh_state) = Some 3
   \<and> shared_updates (updates (handleSubmit early_failure_gateway fresh_state)) =
       [(0, AppendMessage (userMessage fresh_state)),
        (3, AppendMessage (modelMessage [Text (Some ''Terjadi kesalahan: 503 overloaded'')]))]"
proof -
  have m: "memory fresh_state = []" by (simp add: fresh_state_def)
  have e: "fst (snd (memoryTask early_failure_gateway fresh_state)) = 5"
    by (simp add: memoryTask_def memoryPromise_def fresh_trim issue_def Let_def
        early_failure_gateway_def)
  show ?thesis
    using updates_wait_for_both_only_on_success
            [OF fresh_main_pipeline fresh_userParts, of example_gateway]
          updates_wait_for_both_only_on_success
            [OF fresh_main_pipeline fresh_userParts, of early_failure_gateway]
          fresh_main_pipeline fresh_userParts
    by (simp add: fresh_memoryTask example_pipelineTask early_pipelineTask e m memoryUpdates_def
        error_text_503)
qed

text \<open>
  C7. On the main pipeline, when the memory call is rejected, the memory task yields no
  fact, no fact is added and the memory set stays as it was, and the turn does not fail on
  that account: the message appended after the user's is the one that the pipeline alone
  determines, its final message marked as without memory update, or its error message. The
  pipeline's run does not depend on what the Gateway does at the memory call.
\<close>

theorem memory_failure_is_no_fact:
  assumes "main_pipeline st"
    and "userPartsForApi st (trim (userInput st)) = Some ps"
    and "snd (gw MemoryCall (memoryRequest (mainChatHistory st) (userInput st))) = Inl e"
  shows "snd (snd (memoryTask gw st)) = None
       \<and> added_facts (updates (handleSubmit gw st)) = []
       \<and> memory (final (handleSubmit gw st)) = memory st
       \<and> appended_messages (updates (handleSubmit gw st)) =
           [userMessage st,
            (case p_result (pipelineTask gw st ps) of
               Inr finalResult \<Rightarrow> finalMessage finalResult None
             | Inl e' \<Rightarrow> modelMessage [Text (Some (errorMessageText (ErrorObject e')))])]
       \<and> pipelineTask (gw(MemoryCall := g)) st ps = pipelineTask gw st ps"
proof -
  have n: "snd (snd (memoryTask gw st)) = None"
    using assms(3)
    by (cases "gw MemoryCall (memoryRequest (mainChatHistory st) (userInput st))")
       (simp add: memoryTask_def memoryPromise_def issue_def Let_def)
  have v: "appended_messages (updates (handleSubmit gw st)) =
           [userMessage st,
            (case p_result (pipelineTask gw st ps) of
               Inr finalResult \<Rightarrow> finalMessage finalResult None
             | Inl e' \<Rightarrow> modelMessage [Text (Some (errorMessageText (ErrorObject e')))])]
         \<and> added_facts (updates (handleSubmit gw st)) = []"
  proof (cases "p_result (pipelineTask gw st ps)")
    case (Inl e')
    then show ?thesis
      by (simp add: main_updates[OF assms(1,2)] mainTurn_rejected[OF Inl] titleTask_views)
  next
    case (Inr finalResult)
    then show ?thesis
      by (simp add: main_updates[OF assms(1,2)] mainTurn_fulfilled[OF Inr] titleTask_views n
          memoryUpdates_def appended_messages_append added_facts_append)
  qed
  show ?thesis
    using n v by (simp add: handleSubmit_memory pipelineTask_ignores_memory_call)
qed

theorem memory_failure_is_no_fact_witness:
  "main_pipeline fresh_state
   \<and> userPartsForApi fresh_state (trim (userInput fresh_state))
       = Some [Text (Some ''Explain photosynthesis'')]
   \<and> snd (memory_failure_gateway MemoryCall
            (memoryRequest (mainChatHistory fresh_state) (userInput fresh_state)))
       = Inl ''500 internal''
   \<and> snd (snd (memoryTask memory_failure_gateway fresh_state)) = None
   \<and> added_facts (updates (handleSubmit memory_failure_gateway fresh_state)) = []
   \<and> memory (final (handleSubmit memory_failure_gateway fresh_state)) = []
   \<and> appended_messages (updates (handleSubmit memory_failure_gateway fresh_state)) =
       [userMessage fresh_state, finalMessage (answer ''final'') None]"
proof -
  have f: "snd (memory_failure_gateway MemoryCall
                  (memoryRequest (mainChatHistory fresh_state) (userInput fresh_state)))
             = Inl ''500 internal''"
    by (simp add: memory_failure_gateway_def)
  have m: "memory fresh_state = []" by (simp add: fresh_state_def)
  show ?thesis
    using memory_failure_is_no_fact[where gw = memory_failure_gateway and st = fresh_state
              and g = "example_gateway MemoryCall", OF fresh_main_pipeline fresh_userParts f]
          fresh_main_pipeline fresh_userParts f
    by (simp add: memory_failure_pipelineTask example_pipelineTask m)
qed

text \<open>
  C8. When the trimmed input is empty, which it is for the empty input and for every input
  made of white space and line terminators only (\<open>trim_white_space_only\<close>), no submission
  issues a memory call, with or without an attachment.
\<close>

theorem memory_skipped_without_text:
  assumes "trim (userInput st) = []"
  shows "MemoryCall \<notin> set (call_sites (calls (handleSubmit gw st)))"
proof
  assume "MemoryCall \<in> set (call_sites (calls (handleSubmit gw st)))"
  then obtain t rq where "(t, MemoryCall, rq) \<in> set (calls (handleSubmit gw st))"
    by (auto simp add: call_sites_def)
  from handleSubmit_call[OF this] assms show False
    by (auto simp add: is_stage_def is_initial_def is_refinement_def)
qed

theorem memory_skipped_without_text_witness:
  "userInput picture_state = [CHR 0x20, CHR 0xC2, CHR 0xA0, CHR 0x09, CHR 0xE3, CHR 0x80, CHR 0x80]
   \<and> trim (userInput picture_state) = []
   \<and> attachment picture_state = Some example_picture
   \<and> MemoryCall \<notin> set (call_sites (calls (handleSubmit example_gateway picture_state)))
   \<and> call_sites (calls (handleSubmit example_gateway picture_state)) =
       [InitialCall 0, InitialCall 1, InitialCall 2, InitialCall 3,
        RefinementCall 0, RefinementCall 1, RefinementCall 2, RefinementCall 3, SynthesizerCall]"
proof -
  have a: "attachment picture_state = Some example_picture" by (simp add: picture_state_def)
  have i: "userInput picture_state =
      [CHR 0x20, CHR 0xC2, CHR 0xA0, CHR 0x09, CHR 0xE3, CHR 0x80, CHR 0x80]"
    by (simp add: picture_state_def)
  show ?thesis
    using memory_skipped_without_text[OF picture_trim, of example_gateway] picture_trim a i
    by (simp add: main_calls[OF picture_main_pipeline picture_userParts] picture_no_title
        memoryTask_skipped[OF picture_trim] example_pipelineTask)
qed

text \<open>
  C9. On the main pipeline, let the memory task propose the fact \<open>f\<close>. When \<open>f\<close> is
  literally in the memory set, no fact is added and the memory set is left as it was. When
  the pipeline is fulfilled, the memory set afterwards is the old one, extended by \<open>f\<close> only
  if \<open>f\<close> was not in it, and proposing \<open>f\<close> to that set again adds nothing: accepting the
  same fact repeatedly is idempotent.
\<close>

theorem known_fact_is_not_added_again:
  assumes "main_pipeline st"
    and "userPartsForApi st (trim (userInput st)) = Some ps"
    and "snd (snd (memoryTask gw st)) = Some f"
  shows "(f \<in> set (memory st) \<longrightarrow>
            added_facts (updates (handleSubmit gw st)) = []
            \<and> memory (final (handleSubmit gw st)) = memory st)
       \<and> (\<forall>finalResult. p_result (pipelineTask gw st ps) = Inr finalResult \<longrightarrow>
            memory (final (handleSubmit gw st)) =
              (if f \<in> set (memory st) then memory st else memory st @ [f])
            \<and> memoryUpdates (memory (final (handleSubmit gw st))) (Some f) = [])"
proof -
  have ne: "f \<noteq> []" using assms(3) by (rule memoryTask_fact_nonempty)
  have a: "f \<in> set (memory st) \<Longrightarrow> added_facts (updates (handleSubmit gw st)) = []"
  proof (cases "p_result (pipelineTask gw st ps)")
    case (Inl e')
    then show ?thesis
      by (simp add: main_updates[OF assms(1,2)] mainTurn_rejected[OF Inl] titleTask_views)
  next
    case (Inr finalResult)
    assume "f \<in> set (memory st)"
    then show ?thesis
      using views_memoryUpdates[of _ "memory st" "Some f"]
      by (simp add: main_updates[OF assms(1,2)] mainTurn_fulfilled[OF Inr] titleTask_views
          assms(3) added_facts_append)
  qed
  have b: "p_result (pipelineTask gw st ps) = Inr finalResult \<Longrightarrow>
      added_facts (updates (handleSubmit gw st)) = (if f \<in> set (memory st) then [] else [f])"
    for finalResult
    using views_memoryUpdates[of _ "memory st" "Some f"] ne
    by (simp add: main_updates[OF assms(1,2)] mainTurn_fulfilled titleTask_views
        assms(3) added_facts_append)
  show ?thesis
    using a b by (auto simp add: handleSubmit_memory memoryUpdates_def)
qed

theorem known_fact_is_not_added_again_witness:
  "main_pipeline example_state
   \<and> userPartsForApi example_state (trim (userInput example_state))
       = Some [Text (Some ''Explain photosynthesis'')]
   \<and> snd (snd (memoryTask example_gateway example_state)) = Some ''Likes tea''
   \<and> ''Likes tea'' \<in> set (memory example_state)
   \<and> p_result (pipelineTask example_gateway example_state [Text (Some ''Explain photosynthesis'')])
       = Inr (answer ''final'')
   \<and> added_facts (updates (handleSubmit example_gateway example_state)) = []
   \<and> memory (final (handleSubmit example_gateway example_state)) = [''Likes tea'']
   \<and> memoryUpdates (memory (final (handleSubmit example_gateway example_state))) (Some ''Likes tea'') = []
   \<and> snd (snd (memoryTask example_gateway fresh_state)) = Some ''Likes tea''
   \<and> memory fresh_state = []
   \<and> memory (final (handleSubmit example_gateway fresh_state)) = [''Likes tea'']
   \<and> memoryUpdates (memory (final (handleSubmit example_gateway fresh_state))) (Some ''Likes tea'') = []"
proof -
  have t: "snd (snd (memoryTask example_gateway example_state)) = Some ''Likes tea''"
    by (simp add: example_memoryTask)
  have t': "snd (snd (memoryTask example_gateway fresh_state)) = Some ''Likes tea''"
    by (simp add: fresh_memoryTask)
  have m: "memory example_state = [''Likes tea'']" by (simp add: example_state_def)
  have m': "memory fresh_state = []" by (simp add: fresh_state_def)
  show ?thesis
    using known_fact_is_not_added_again
            [where gw = example_gateway, OF example_main_pipeline example_userParts t]
          known_fact_is_not_added_again
            [where gw = example_gateway, OF fresh_main_pipeline fresh_userParts t']
          example_main_pipeline example_userParts t t'
    by (simp add: m m' example_pipelineTask memoryUpdates_def)
qed




end
